theory Spec2Isabelle
  imports Main "HOL-Library.Sublist"
begin

section \<open>go-dep-updater: a shallow embedding of main.go\<close>

text \<open>
  The program walks a directory tree and, for every \<^verbatim>\<open>go.mod\<close> it meets, decides from the
  manifest whether a dependency has to be moved to a target version, and if so runs a fixed
  sequence of \<^verbatim>\<open>git\<close> and \<^verbatim>\<open>go\<close> commands in the project directory.

  Go strings are byte strings, modelled as \<^typ>\<open>string\<close> (a list of 8-bit characters).
  Everything outside the process (subprocesses, the file system, standard input, the
  directory walk) is an operation on an abstract world \<open>'w\<close>, collected in the record
  \<open>env\<close>. The program state is the world together with the chronological trace of what
  the program did to it: commands run (with their results), stat queries, lines read,
  log calls.
\<close>

subsection \<open>The functions of package strings that the program calls\<close>

text \<open>\<^verbatim>\<open>strings.Contains(s, substr)\<close>: \<open>substr\<close> occurs in \<open>s\<close> as a contiguous block.\<close>

definition Contains :: "string \<Rightarrow> string \<Rightarrow> bool" where
  "Contains s substr = sublist substr s"

text \<open>
  \<^verbatim>\<open>strings.Split(s, "\n")\<close>: the pieces between the newlines; one piece more than there
  are newlines, so never the empty list.
\<close>

fun Split_newline :: "string \<Rightarrow> string list" where
  "Split_newline [] = [[]]"
| "Split_newline (c # cs) =
     (if c = CHR 0x0A then [] # Split_newline cs
      else (case Split_newline cs of
              [] \<Rightarrow> [[c]]
            | l # ls \<Rightarrow> (c # l) # ls))"

text \<open>
  The white space of \<^verbatim>\<open>unicode.IsSpace\<close>, each rune in its UTF-8 encoding: the six ASCII
  characters tab, newline, vertical tab, form feed, carriage return and space, then U+0085,
  U+00A0, U+1680, U+2000 to U+200A, U+2028, U+2029, U+202F, U+205F and U+3000. The first
  byte of every encoding is a byte that starts a rune, so a decoder that reads the string
  from the left (or from the right) meets a white-space rune exactly where one of these
  byte blocks stands.
\<close>

definition spaceRunes :: "string list" where
  "spaceRunes =
    [[CHR 0x09], [CHR 0x0A], [CHR 0x0B], [CHR 0x0C], [CHR 0x0D], [CHR 0x20],
     [CHR 0xC2, CHR 0x85], [CHR 0xC2, CHR 0xA0],
     [CHR 0xE1, CHR 0x9A, CHR 0x80],
     [CHR 0xE2, CHR 0x80, CHR 0x80], [CHR 0xE2, CHR 0x80, CHR 0x81],
     [CHR 0xE2, CHR 0x80, CHR 0x82], [CHR 0xE2, CHR 0x80, CHR 0x83],
     [CHR 0xE2, CHR 0x80, CHR 0x84], [CHR 0xE2, CHR 0x80, CHR 0x85],
     [CHR 0xE2, CHR 0x80, CHR 0x86], [CHR 0xE2, CHR 0x80, CHR 0x87],
     [CHR 0xE2, CHR 0x80, CHR 0x88], [CHR 0xE2, CHR 0x80, CHR 0x89],
     [CHR 0xE2, CHR 0x80, CHR 0x8A],
     [CHR 0xE2, CHR 0x80, CHR 0xA8], [CHR 0xE2, CHR 0x80, CHR 0xA9],
     [CHR 0xE2, CHR 0x80, CHR 0xAF],
     [CHR 0xE2, CHR 0x81, CHR 0x9F],
     [CHR 0xE3, CHR 0x80, CHR 0x80]]"

text \<open>The width in bytes of the white-space rune at the head of the string, 0 if there is none.\<close>

definition spaceLen :: "string \<Rightarrow> nat" where
  "spaceLen s = (case find (\<lambda>p. prefix p s) spaceRunes of None \<Rightarrow> 0 | Some p \<Rightarrow> length p)"

text \<open>The same at the end of the string.\<close>

definition spaceLenRight :: "string \<Rightarrow> nat" where
  "spaceLenRight s = (case find (\<lambda>p. suffix p s) spaceRunes of None \<Rightarrow> 0 | Some p \<Rightarrow> length p)"

text \<open>The longest prefix in which no white-space rune starts.\<close>

fun word :: "string \<Rightarrow> string" where
  "word [] = []"
| "word (c # cs) = (if 0 < spaceLen (c # cs) then [] else c # word cs)"

lemma spaceLen_le: "spaceLen s \<le> length s"
proof (cases "find (\<lambda>p. prefix p s) spaceRunes")
  case None
  then show ?thesis by (simp add: spaceLen_def)
next
  case (Some p)
  then have "prefix p s" by (auto simp: find_Some_iff)
  with Some show ?thesis by (simp add: spaceLen_def prefix_length_le)
qed

lemma spaceLenRight_le: "spaceLenRight s \<le> length s"
proof (cases "find (\<lambda>p. suffix p s) spaceRunes")
  case None
  then show ?thesis by (simp add: spaceLenRight_def)
next
  case (Some p)
  then have "suffix p s" by (auto simp: find_Some_iff)
  with Some show ?thesis by (simp add: spaceLenRight_def suffix_length_le)
qed

text \<open>
  \<^verbatim>\<open>strings.Fields(s)\<close>: the maximal runs of bytes between white-space runes, in order;
  empty when the string holds white space only.
\<close>

function Fields :: "string \<Rightarrow> string list" where
  "Fields s =
     (if s = [] then []
      else if 0 < spaceLen s then Fields (drop (spaceLen s) s)
      else word s # Fields (drop (length (word s)) s))"
  by pat_completeness auto
termination
proof (relation "measure length")
  show "wf (measure length)" by simp
next
  fix s :: string
  assume "s \<noteq> []" "0 < spaceLen s"
  then show "(drop (spaceLen s) s, s) \<in> measure length" by simp
next
  fix s :: string
  assume "s \<noteq> []" "\<not> 0 < spaceLen s"
  then have "0 < length (word s)" by (cases s) auto
  with \<open>s \<noteq> []\<close> show "(drop (length (word s)) s, s) \<in> measure length" by simp
qed

declare Fields.simps [simp del]

text \<open>\<^verbatim>\<open>strings.TrimSpace(s)\<close>: white-space runes removed from the left, then from the right.\<close>

function TrimLeftSpace :: "string \<Rightarrow> string" where
  "TrimLeftSpace s = (if 0 < spaceLen s then TrimLeftSpace (drop (spaceLen s) s) else s)"
  by pat_completeness auto
termination
proof (relation "measure length")
  show "wf (measure length)" by simp
next
  fix s :: string
  assume "0 < spaceLen s"
  moreover have "spaceLen s \<le> length s" by (rule spaceLen_le)
  ultimately show "(drop (spaceLen s) s, s) \<in> measure length" by simp
qed

function TrimRightSpace :: "string \<Rightarrow> string" where
  "TrimRightSpace s =
     (if 0 < spaceLenRight s then TrimRightSpace (take (length s - spaceLenRight s) s) else s)"
  by pat_completeness auto
termination
proof (relation "measure length")
  show "wf (measure length)" by simp
next
  fix s :: string
  assume "0 < spaceLenRight s"
  moreover have "spaceLenRight s \<le> length s" by (rule spaceLenRight_le)
  ultimately show "(take (length s - spaceLenRight s) s, s) \<in> measure length" by simp
qed

declare TrimLeftSpace.simps [simp del] TrimRightSpace.simps [simp del]

definition TrimSpace :: "string \<Rightarrow> string" where
  "TrimSpace s = TrimRightSpace (TrimLeftSpace s)"

text \<open>\<^verbatim>\<open>strings.TrimSuffix(s, suffix)\<close>: \<open>s\<close> without the suffix if it ends with it, else \<open>s\<close>.\<close>

definition TrimSuffix :: "string \<Rightarrow> string \<Rightarrow> string" where
  "TrimSuffix s suf = (if suffix suf s then take (length s - length suf) s else s)"

subsection \<open>The world outside the process\<close>

text \<open>A Go \<^verbatim>\<open>error\<close> is represented by its message; \<^verbatim>\<open>nil\<close> is \<open>None\<close>.\<close>

type_synonym error = string

text \<open>\<^verbatim>\<open>fmt.Errorf("%v: %s", err, out)\<close>\<close>

definition Errorf :: "error \<Rightarrow> string \<Rightarrow> error" where
  "Errorf err out = err @ '': '' @ out"

text \<open>An \<^verbatim>\<open>exec.Cmd\<close>: the program, its arguments, and the directory it runs in.\<close>

record cmd =
  Name :: string
  Args :: "string list"
  Dir :: string

text \<open>What \<^verbatim>\<open>os.Stat\<close> can fail with, as far as \<^verbatim>\<open>os.IsNotExist\<close> tells the failures apart.\<close>

datatype oserror = ErrNotExist | ErrOther string

datatype level = DebugLevel | InfoLevel | WarnLevel | ErrorLevel

text \<open>
  What the program does, in the order it does it. A log call is recorded with its format
  and arguments unformatted; \<open>Indented\<close> is a call of \<^verbatim>\<open>printIndentedInfo\<close>,
  \<^verbatim>\<open>printIndentedError\<close> or \<^verbatim>\<open>printIndentedWarning\<close>, which log
  \<^verbatim>\<open>app + ": " + Sprintf(format, args...)\<close>.
\<close>

datatype event =
    Visit string
  | Exec cmd string "error option"
  | Stat string "oserror option"
  | Prompt string "string list"
  | ReadString string "error option"
  | PrintError error
  | Logf level string "string list"
  | Indented level string string "string list"

text \<open>
  One call of the function given to \<^verbatim>\<open>filepath.Walk\<close>: the path, and either the error
  Walk met there or what \<^verbatim>\<open>info.Name()\<close> and \<^verbatim>\<open>info.IsDir()\<close> say.
\<close>

record walkEntry =
  wpath :: string
  wname :: string
  wisDir :: bool
  werr :: "error option"

text \<open>
  The operations on the world. \<open>CombinedOutput\<close> runs a command and returns its combined
  standard output and standard error together with the error of the run, both of them
  also when the command fails. \<open>ReadFile\<close> and \<open>os_Stat\<close> observe the file system,
  \<open>stdin_ReadString\<close> is \<^verbatim>\<open>bufio.NewReader(os.Stdin).ReadString('\n')\<close>. \<open>visits\<close> is
  the sequence of calls that \<^verbatim>\<open>filepath.Walk\<close> makes on a root as long as the function
  it is given returns \<^verbatim>\<open>nil\<close>. \<open>filepath_Dir\<close>, \<open>filepath_Base\<close> and \<open>path_Join\<close> are the
  library's path functions.
\<close>

record 'w env =
  CombinedOutput :: "cmd \<Rightarrow> 'w \<Rightarrow> (string \<times> error option) \<times> 'w"
  ReadFile :: "string \<Rightarrow> 'w \<Rightarrow> string \<times> error option"
  os_Stat :: "string \<Rightarrow> 'w \<Rightarrow> oserror option"
  stdin_ReadString :: "'w \<Rightarrow> (string \<times> error option) \<times> 'w"
  visits :: "string \<Rightarrow> 'w \<Rightarrow> walkEntry list"
  filepath_Dir :: "string \<Rightarrow> string"
  filepath_Base :: "string \<Rightarrow> string"
  path_Join :: "string \<Rightarrow> string \<Rightarrow> string"

record 'w state =
  world :: 'w
  trace :: "event list"

definition emit :: "event \<Rightarrow> 'w state \<Rightarrow> 'w state" where
  "emit e s = s\<lparr>trace := trace s @ [e]\<rparr>"

subsection \<open>Version inspection and the upgrade decision\<close>

definition VersionUnknown :: string where
  "VersionUnknown = ''Unknown''"

definition VersionNotFound :: string where
  "VersionNotFound = ''NotFound''"

text \<open>
  The loop of \<^verbatim>\<open>getDependencyVersion\<close> over the lines: the first line that contains the
  dependency decides, by its second field; with no such line the loop ends and the
  function returns \<^verbatim>\<open>VersionUnknown\<close>.
\<close>

fun scanLines :: "string list \<Rightarrow> string \<Rightarrow> string" where
  "scanLines [] dependency = VersionUnknown"
| "scanLines (line # lines) dependency =
     (if Contains line dependency then
        (let parts = Fields line in
         if 1 < length parts then parts ! 1 else VersionNotFound)
      else scanLines lines dependency)"

definition getDependencyVersion :: "'w env \<Rightarrow> 'w \<Rightarrow> string \<Rightarrow> string \<Rightarrow> string" where
  "getDependencyVersion env w filePath dependency =
     (case ReadFile env filePath w of
        (data, Some err) \<Rightarrow> VersionUnknown
      | (data, None) \<Rightarrow> scanLines (Split_newline data) dependency)"

definition shouldUpgrade :: "'w env \<Rightarrow> 'w \<Rightarrow> string \<Rightarrow> string \<Rightarrow> string \<Rightarrow> string \<times> bool" where
  "shouldUpgrade env w path dependency targetVersion =
     (let currentVersion = getDependencyVersion env w path dependency;
          isKnownVersion = (currentVersion \<noteq> VersionUnknown \<and> currentVersion \<noteq> VersionNotFound)
      in (currentVersion, isKnownVersion \<and> currentVersion \<noteq> targetVersion))"

subsection \<open>Running commands\<close>

definition executeCommand :: "'w env \<Rightarrow> cmd \<Rightarrow> 'w state \<Rightarrow> (string \<times> error option) \<times> 'w state" where
  "executeCommand env c s =
     (case CombinedOutput env c (world s) of
        ((output, err), w') \<Rightarrow>
          ((output, err), \<lparr>world = w', trace = trace s @ [Exec c output err]\<rparr>))"

text \<open>
  The shape shared by the functions that run one command and turn its failure into an
  error carrying the output.
\<close>

definition checked :: "'w env \<Rightarrow> cmd \<Rightarrow> 'w state \<Rightarrow> error option \<times> 'w state" where
  "checked env c s =
     (case executeCommand env c s of
        ((out, Some err), s') \<Rightarrow> (Some (Errorf err out), s')
      | ((out, None), s') \<Rightarrow> (None, s'))"

definition git_status :: "string \<Rightarrow> cmd" where
  "git_status projectDir = \<lparr>Name = ''git'', Args = [''status'', ''--porcelain''], Dir = projectDir\<rparr>"

definition git_rev_parse :: "string \<Rightarrow> cmd" where
  "git_rev_parse projectDir =
     \<lparr>Name = ''git'', Args = [''rev-parse'', ''--abbrev-ref'', ''HEAD''], Dir = projectDir\<rparr>"

definition git_checkout :: "string \<Rightarrow> cmd" where
  "git_checkout projectDir = \<lparr>Name = ''git'', Args = [''checkout'', ''master''], Dir = projectDir\<rparr>"

definition git_pull :: "string \<Rightarrow> cmd" where
  "git_pull projectDir = \<lparr>Name = ''git'', Args = [''pull''], Dir = projectDir\<rparr>"

definition go_get :: "string \<Rightarrow> string \<Rightarrow> string \<Rightarrow> cmd" where
  "go_get projectDir dependency targetVersion =
     \<lparr>Name = ''go'', Args = [''get'', dependency @ ''@'' @ targetVersion], Dir = projectDir\<rparr>"

definition go_mod_tidy :: "string \<Rightarrow> cmd" where
  "go_mod_tidy projectDir = \<lparr>Name = ''go'', Args = [''mod'', ''tidy''], Dir = projectDir\<rparr>"

definition go_vet :: "string \<Rightarrow> cmd" where
  "go_vet projectDir = \<lparr>Name = ''go'', Args = [''vet'', ''./...''], Dir = projectDir\<rparr>"

definition go_test :: "string \<Rightarrow> cmd" where
  "go_test projectDir = \<lparr>Name = ''go'', Args = [''test'', ''./...''], Dir = projectDir\<rparr>"

definition go_build :: "string \<Rightarrow> cmd" where
  "go_build projectDir =
     \<lparr>Name = ''go'', Args = [''build'', ''-o'', ''tmp-app'', ''main.go''], Dir = projectDir\<rparr>"

definition rm_tmp_app :: "string \<Rightarrow> cmd" where
  "rm_tmp_app projectDir = \<lparr>Name = ''rm'', Args = [''./tmp-app''], Dir = projectDir\<rparr>"

definition git_add :: "string \<Rightarrow> cmd" where
  "git_add projectDir = \<lparr>Name = ''git'', Args = [''add'', ''go.mod'', ''go.sum''], Dir = projectDir\<rparr>"

definition commitMessage :: "string \<Rightarrow> string \<Rightarrow> string" where
  "commitMessage dependency targetVersion =
     ''Updated '' @ dependency @ '' to version '' @ targetVersion"

definition git_commit :: "string \<Rightarrow> string \<Rightarrow> string \<Rightarrow> cmd" where
  "git_commit projectDir dependency targetVersion =
     \<lparr>Name = ''git'', Args = [''commit'', ''-m'', commitMessage dependency targetVersion],
      Dir = projectDir\<rparr>"

definition git_push :: "string \<Rightarrow> cmd" where
  "git_push projectDir = \<lparr>Name = ''git'', Args = [''push''], Dir = projectDir\<rparr>"

definition hasUncommittedChanges :: "'w env \<Rightarrow> string \<Rightarrow> 'w state \<Rightarrow> bool \<times> 'w state" where
  "hasUncommittedChanges env projectDir s =
     (case executeCommand env (git_status projectDir) s of
        ((out, _), s') \<Rightarrow> (0 < length out, s'))"

definition gitPull :: "'w env \<Rightarrow> string \<Rightarrow> 'w state \<Rightarrow> error option \<times> 'w state" where
  "gitPull env projectDir s = checked env (git_pull projectDir) s"

definition goGetUpdate ::
  "'w env \<Rightarrow> string \<Rightarrow> string \<Rightarrow> string \<Rightarrow> 'w state \<Rightarrow> error option \<times> 'w state" where
  "goGetUpdate env projectDir dependency targetVersion s =
     (case checked env (go_get projectDir dependency targetVersion) s of
        (Some err, s') \<Rightarrow> (Some err, s')
      | (None, s') \<Rightarrow> checked env (go_mod_tidy projectDir) s')"

definition goVet :: "'w env \<Rightarrow> string \<Rightarrow> 'w state \<Rightarrow> error option \<times> 'w state" where
  "goVet env projectDir s = checked env (go_vet projectDir) s"

definition goTest :: "'w env \<Rightarrow> string \<Rightarrow> 'w state \<Rightarrow> error option \<times> 'w state" where
  "goTest env projectDir s = checked env (go_test projectDir) s"

definition goBuild :: "'w env \<Rightarrow> string \<Rightarrow> 'w state \<Rightarrow> error option \<times> 'w state" where
  "goBuild env projectDir s =
     (case checked env (go_build projectDir) s of
        (Some err, s') \<Rightarrow> (Some err, s')
      | (None, s') \<Rightarrow> checked env (rm_tmp_app projectDir) s')"

definition gitCommit ::
  "'w env \<Rightarrow> string \<Rightarrow> string \<Rightarrow> string \<Rightarrow> 'w state \<Rightarrow> error option \<times> 'w state" where
  "gitCommit env projectDir dependency targetVersion s =
     (case checked env (git_add projectDir) s of
        (Some err, s') \<Rightarrow> (Some err, s')
      | (None, s') \<Rightarrow> checked env (git_commit projectDir dependency targetVersion) s')"

definition gitPush :: "'w env \<Rightarrow> string \<Rightarrow> 'w state \<Rightarrow> error option \<times> 'w state" where
  "gitPush env projectDir s = checked env (git_push projectDir) s"

definition currentGitBranch ::
  "'w env \<Rightarrow> string \<Rightarrow> 'w state \<Rightarrow> (string \<times> error option) \<times> 'w state" where
  "currentGitBranch env projectDir s =
     (case executeCommand env (git_rev_parse projectDir) s of
        ((out, Some err), s') \<Rightarrow> (([], Some (Errorf err out)), s')
      | ((out, None), s') \<Rightarrow> ((TrimSpace out, None), s'))"

definition gitCheckoutMaster :: "'w env \<Rightarrow> string \<Rightarrow> 'w state \<Rightarrow> error option \<times> 'w state" where
  "gitCheckoutMaster env projectDir s = checked env (git_checkout projectDir) s"

subsection \<open>Prompt, logging, stat\<close>

definition readInput :: "'w env \<Rightarrow> string \<Rightarrow> string list \<Rightarrow> 'w state \<Rightarrow> string \<times> 'w state" where
  "readInput env prompt args s =
     (let s1 = emit (Prompt prompt args) s in
      case stdin_ReadString env (world s1) of
        ((text, err), w') \<Rightarrow>
          (let s2 = \<lparr>world = w', trace = trace s1 @ [ReadString text err]\<rparr> in
           case err of
             Some e \<Rightarrow> ([], emit (PrintError e) s2)
           | None \<Rightarrow> (TrimSuffix text [CHR 0x0A], s2)))"

definition printIndentedInfo :: "string \<Rightarrow> string \<Rightarrow> string list \<Rightarrow> 'w state \<Rightarrow> 'w state" where
  "printIndentedInfo app format args s = emit (Indented InfoLevel app format args) s"

definition printIndentedError :: "string \<Rightarrow> string \<Rightarrow> string list \<Rightarrow> 'w state \<Rightarrow> 'w state" where
  "printIndentedError app format args s = emit (Indented ErrorLevel app format args) s"

definition printIndentedWarning :: "string \<Rightarrow> string \<Rightarrow> string list \<Rightarrow> 'w state \<Rightarrow> 'w state" where
  "printIndentedWarning app format args s = emit (Indented WarnLevel app format args) s"

text \<open>
  \<^verbatim>\<open>directoryHasFile\<close> answers false only when \<^verbatim>\<open>os.Stat\<close> fails with an error that
  \<^verbatim>\<open>os.IsNotExist\<close> accepts; a stat that succeeds and a stat that fails otherwise both
  answer true.
\<close>

definition directoryHasFile :: "'w env \<Rightarrow> string \<Rightarrow> string \<Rightarrow> 'w state \<Rightarrow> bool \<times> 'w state" where
  "directoryHasFile env directoryPath fileName s =
     (let filePath = path_Join env directoryPath fileName;
          err = os_Stat env filePath (world s)
      in (if err = Some ErrNotExist then False else True, emit (Stat filePath err) s))"

subsection \<open>The function given to filepath.Walk\<close>

text \<open>
  The function literal of \<^verbatim>\<open>main\<close> is one block of early returns. It is written here as
  five definitions, each the rest of the block from some line on: \<open>publish\<close> is lines
  116 to 128, \<open>verify\<close> lines 95 to 114, \<open>update\<close> lines 81 to 93, \<open>prepare\<close> lines 56 to
  79, and \<open>walkFn\<close> the block from its first line. The result is the error the function
  returns to Walk.
\<close>

definition aborted :: error where
  "aborted = ''aborted due to unwanted project state after update. See above error(s)''"

definition abortedBuild :: error where
  "abortedBuild = ''aborted due to unwanted project state after update''"

definition publish ::
  "'w env \<Rightarrow> string \<Rightarrow> string \<Rightarrow> string \<Rightarrow> string \<Rightarrow> 'w state \<Rightarrow> error option \<times> 'w state" where
  "publish env dependency targetVersion projectDir projectName s =
     (let s1 = printIndentedInfo projectName ''Committing changes to git...'' [] s in
      case gitCommit env projectDir dependency targetVersion s1 of
        (Some err, s2) \<Rightarrow>
          (None, printIndentedError projectName
                   ''Error committing changes for project %s: %v'' [projectName, err] s2)
      | (None, s2) \<Rightarrow>
          (let s3 = printIndentedInfo projectName ''Pushing to git origin...'' [] s2 in
           case gitPush env projectDir s3 of
             (Some err, s4) \<Rightarrow>
               (None, printIndentedError projectName
                        ''Error pushing changes for project %s: %v'' [projectName, err] s4)
           | (None, s4) \<Rightarrow>
               (None, printIndentedInfo ''Done updating %s'' projectName [] s4)))"

definition verify ::
  "'w env \<Rightarrow> string \<Rightarrow> string \<Rightarrow> string \<Rightarrow> string \<Rightarrow> 'w state \<Rightarrow> error option \<times> 'w state" where
  "verify env dependency targetVersion projectDir projectName s =
     (let s1 = printIndentedInfo projectName ''Running go vet...'' [] s in
      case goVet env projectDir s1 of
        (Some err, s2) \<Rightarrow>
          (Some aborted, printIndentedError projectName
                           ''Error running go vet for project %s: %v'' [projectName, err] s2)
      | (None, s2) \<Rightarrow>
          (let s3 = printIndentedInfo projectName ''Running go test...'' [] s2 in
           case goTest env projectDir s3 of
             (Some err, s4) \<Rightarrow>
               (Some aborted, printIndentedError projectName
                                ''Error running go test for project %s: %v'' [projectName, err] s4)
           | (None, s4) \<Rightarrow>
               (case directoryHasFile env projectDir ''main.go'' s4 of
                  (True, s5) \<Rightarrow>
                    (let s6 = printIndentedInfo projectName ''Running go build...'' [] s5 in
                     case goBuild env projectDir s6 of
                       (Some err, s7) \<Rightarrow>
                         (Some abortedBuild,
                          printIndentedError projectName
                            ''Error running go build for project %s: %v'' [projectName, err] s7)
                     | (None, s7) \<Rightarrow> publish env dependency targetVersion projectDir projectName s7)
                | (False, s5) \<Rightarrow> publish env dependency targetVersion projectDir projectName s5)))"

definition update ::
  "'w env \<Rightarrow> string \<Rightarrow> string \<Rightarrow> string \<Rightarrow> string \<Rightarrow> 'w state \<Rightarrow> error option \<times> 'w state" where
  "update env dependency targetVersion projectDir projectName s =
     (let s1 = printIndentedInfo projectName ''Pulling latest from origin...'' [] s in
      case gitPull env projectDir s1 of
        (Some err, s2) \<Rightarrow>
          (None, printIndentedError projectName
                   ''Error pulling changes for project %s: %v'' [projectName, err] s2)
      | (None, s2) \<Rightarrow>
          (let s3 = printIndentedInfo projectName ''Running go get...'' [] s2 in
           case goGetUpdate env projectDir dependency targetVersion s3 of
             (Some err, s4) \<Rightarrow>
               (None, printIndentedError projectName
                        ''Error updating dependency for project %s: %v'' [projectName, err] s4)
           | (None, s4) \<Rightarrow>
               verify env dependency targetVersion projectDir projectName
                 (printIndentedInfo projectName
                    ''Successfully updated dependency %s to %s for %s''
                    [dependency, targetVersion, projectName] s4)))"

definition prepare ::
  "'w env \<Rightarrow> string \<Rightarrow> string \<Rightarrow> string \<Rightarrow> string \<Rightarrow> string \<Rightarrow> 'w state
    \<Rightarrow> error option \<times> 'w state" where
  "prepare env dependency targetVersion projectDir projectName currentVersion s =
     (let s0 = emit (Logf InfoLevel ''Updating Project: %s from version %s to %s''
                       [projectName, currentVersion, targetVersion]) s;
          s1 = printIndentedInfo projectName ''Checking for uncommitted changes...'' [] s0 in
      case hasUncommittedChanges env projectDir s1 of
        (True, s2) \<Rightarrow>
          (None, printIndentedWarning projectName
                   ''Warning: Project %s has uncommitted changes. Skipping update.''
                   [projectName] s2)
      | (False, s2) \<Rightarrow>
          (let s3 = printIndentedInfo projectName
                      ''Checking that current git branch is master...'' [] s2 in
           case currentGitBranch env projectDir s3 of
             ((currentBranch, Some err), s4) \<Rightarrow>
               (None, printIndentedError projectName
                        ''Error determining current branch for project %s: %v''
                        [projectName, err] s4)
           | ((currentBranch, None), s4) \<Rightarrow>
               (if currentBranch \<noteq> ''master'' then
                  (let s5 = printIndentedInfo projectName
                              (''Project is not on '' @ [CHR 0x27] @ ''master'' @ [CHR 0x27]
                                 @ '' branch. Switching...'') [] s4 in
                   case gitCheckoutMaster env projectDir s5 of
                     (Some err, s6) \<Rightarrow>
                       (None, printIndentedError projectName
                                (''Error switching to '' @ [CHR 0x27] @ ''master'' @ [CHR 0x27]
                                   @ '' branch for project %s: %v'')
                                [projectName, err] s6)
                   | (None, s6) \<Rightarrow> update env dependency targetVersion projectDir projectName s6)
                else update env dependency targetVersion projectDir projectName s4)))"

definition walkFn ::
  "'w env \<Rightarrow> string \<Rightarrow> string \<Rightarrow> bool \<Rightarrow> walkEntry \<Rightarrow> 'w state \<Rightarrow> error option \<times> 'w state" where
  "walkFn env dependency targetVersion confirmBeforeEach e s =
     (case werr e of
        Some err \<Rightarrow> (Some err, s)
      | None \<Rightarrow>
          if \<not> wisDir e \<and> wname e = ''go.mod'' then
            (let path = wpath e;
                 projectDir = filepath_Dir env path;
                 projectName = filepath_Base env projectDir;
                 (currentVersion, upgrade) =
                    shouldUpgrade env (world s) path dependency targetVersion
             in if \<not> upgrade then
                  (None, emit (Logf DebugLevel ''Upgrade not needed for %s\<newline>'' [projectDir]) s)
                else if confirmBeforeEach then
                  (case readInput env ''Continue with %s?'' [projectDir] s of
                     (answer, s1) \<Rightarrow>
                       if answer \<noteq> ''y'' \<and> answer \<noteq> ''yes'' then
                         (None, emit (Logf DebugLevel ''Skipping %s\<newline>'' [projectDir]) s1)
                       else
                         prepare env dependency targetVersion projectDir projectName
                           currentVersion s1)
                else
                  prepare env dependency targetVersion projectDir projectName currentVersion s)
          else (None, s))"

subsection \<open>The walk and main\<close>

text \<open>
  \<^verbatim>\<open>filepath.Walk\<close> calls the function on the entries in order and stops at the first call
  that returns an error, which it returns itself. (Walk treats the errors
  \<^verbatim>\<open>SkipDir\<close> and \<^verbatim>\<open>SkipAll\<close> apart; \<open>walkFn\<close> creates neither.)
\<close>

fun walk ::
  "(walkEntry \<Rightarrow> 'w state \<Rightarrow> error option \<times> 'w state) \<Rightarrow> walkEntry list \<Rightarrow> 'w state
    \<Rightarrow> error option \<times> 'w state" where
  "walk fn [] s = (None, s)"
| "walk fn (e # es) s =
     (case fn e (emit (Visit (wpath e)) s) of
        (Some err, s') \<Rightarrow> (Some err, s')
      | (None, s') \<Rightarrow> walk fn es s')"

definition Walk ::
  "'w env \<Rightarrow> string \<Rightarrow> (walkEntry \<Rightarrow> 'w state \<Rightarrow> error option \<times> 'w state) \<Rightarrow> 'w state
    \<Rightarrow> error option \<times> 'w state" where
  "Walk env root fn s = walk fn (visits env root (world s)) s"

definition usage :: string where
  "usage = ''Usage: go-dep-updater <root_directory_path> <dependency> <target-version>''"

text \<open>\<open>osArgs\<close> is \<^verbatim>\<open>os.Args\<close>: the program name, then the positional arguments.\<close>

definition confirmEach :: "string list \<Rightarrow> bool" where
  "confirmEach osArgs = (if 5 \<le> length osArgs then osArgs ! 4 = ''confirm-each'' else False)"

definition main :: "'w env \<Rightarrow> string list \<Rightarrow> 'w state \<Rightarrow> 'w state" where
  "main env osArgs s =
     (if length osArgs < 4 then emit (Logf ErrorLevel usage []) s
      else
        (let rootDir = osArgs ! 1;
             dependency = osArgs ! 2;
             targetVersion = osArgs ! 3;
             confirmBeforeEach = confirmEach osArgs
         in case Walk env rootDir (walkFn env dependency targetVersion confirmBeforeEach) s of
              (Some err, s') \<Rightarrow> emit (Logf ErrorLevel ''Error walking the path: %v\<newline>'' [err]) s'
            | (None, s') \<Rightarrow> s'))"

subsection \<open>A scripted world for concrete runs\<close>

text \<open>
  A world without state: every file has the content \<open>files\<close> gives it, every command
  the result \<open>run\<close> gives it, every stat the result \<open>st\<close>, every read of standard input
  the result \<open>inp\<close>, and the walk presents \<open>ents\<close>. \<open>dirOf\<close> and \<open>baseOf\<close> are
  \<^verbatim>\<open>filepath.Dir\<close> and \<^verbatim>\<open>filepath.Base\<close> on a clean path with a slash before its last
  element, and the join is \<^verbatim>\<open>path.Join\<close> on clean, non-empty elements.
\<close>

definition dirOf :: "string \<Rightarrow> string" where
  "dirOf p = rev (tl (dropWhile (\<lambda>c. c \<noteq> CHR ''/'') (rev p)))"

definition baseOf :: "string \<Rightarrow> string" where
  "baseOf p = rev (takeWhile (\<lambda>c. c \<noteq> CHR ''/'') (rev p))"

definition scripted ::
  "(string \<Rightarrow> string \<times> error option) \<Rightarrow> (cmd \<Rightarrow> string \<times> error option) \<Rightarrow> oserror option
    \<Rightarrow> string \<times> error option \<Rightarrow> walkEntry list \<Rightarrow> unit env" where
  "scripted files run st inp ents =
     \<lparr>CombinedOutput = (\<lambda>c w. (run c, w)),
      ReadFile = (\<lambda>p w. files p),
      os_Stat = (\<lambda>p w. st),
      stdin_ReadString = (\<lambda>w. (inp, w)),
      visits = (\<lambda>root w. ents),
      filepath_Dir = dirOf,
      filepath_Base = baseOf,
      path_Join = (\<lambda>d f. d @ ''/'' @ f)\<rparr>"

definition start :: "unit state" where
  "start = \<lparr>world = (), trace = []\<rparr>"

text \<open>Every command succeeds silently, and the branch is \<^verbatim>\<open>master\<close>.\<close>

definition allGood :: "cmd \<Rightarrow> string \<times> error option" where
  "allGood c = (if Args c = [''rev-parse'', ''--abbrev-ref'', ''HEAD'']
                then (''master\<newline>'', None) else ([], None))"

text \<open>The same, except that the command with the arguments \<open>bad\<close> fails in directory \<open>dir\<close>.\<close>

definition failing :: "string \<Rightarrow> string list \<Rightarrow> cmd \<Rightarrow> string \<times> error option" where
  "failing dir bad c =
     (if Dir c = dir \<and> Args c = bad then (''boom'', Some ''exit status 1'') else allGood c)"

definition fileEntry :: "string \<Rightarrow> walkEntry" where
  "fileEntry p = \<lparr>wpath = p, wname = baseOf p, wisDir = False, werr = None\<rparr>"

definition dirEntry :: "string \<Rightarrow> walkEntry" where
  "dirEntry p = \<lparr>wpath = p, wname = baseOf p, wisDir = True, werr = None\<rparr>"

text \<open>A manifest that pins \<^verbatim>\<open>github.com/foo/bar\<close> to \<^verbatim>\<open>v1.2.0\<close> in a require block.\<close>

definition manifest :: string where
  "manifest = ''module example.com/app\<newline>\<newline>require (\<newline>'' @ [CHR 0x09]
     @ ''github.com/foo/bar v1.2.0\<newline>)\<newline>''"

definition readable :: "string \<Rightarrow> string \<Rightarrow> string \<times> error option" where
  "readable data p = (data, None)"

definition unreadable :: "string \<Rightarrow> string \<times> error option" where
  "unreadable p = ([], Some ''permission denied'')"

subsection \<open>Reading a run off its trace\<close>

text \<open>
  The statements about the pipeline are about the events that one call of \<open>walkFn\<close> appends
  to the trace. An event \<open>acts\<close> when the program touches the world with it: it runs a
  command, asks \<^verbatim>\<open>os.Stat\<close>, prompts, or reads standard input. Log lines and the visit mark
  of the walk do not.
\<close>

fun acts :: "event \<Rightarrow> bool" where
  "acts (Exec c out err) = True"
| "acts (Stat p r) = True"
| "acts (Prompt f a) = True"
| "acts (ReadString t err) = True"
| "acts _ = False"

definition isStatus :: "cmd \<Rightarrow> bool" where
  "isStatus c = (Name c = ''git'' \<and> Args c = [''status'', ''--porcelain''])"

definition isRevParse :: "cmd \<Rightarrow> bool" where
  "isRevParse c = (Name c = ''git'' \<and> Args c = [''rev-parse'', ''--abbrev-ref'', ''HEAD''])"

text \<open>The answer on which the closure goes on after the prompt (lines 49 to 54).\<close>

definition accepted :: "string \<Rightarrow> bool" where
  "accepted t = (TrimSuffix t [CHR 0x0A] = ''y'' \<or> TrimSuffix t [CHR 0x0A] = ''yes'')"

text \<open>
  The outcomes on which the closure returns: output of \<^verbatim>\<open>git status\<close> (whatever its error),
  a read of standard input that failed or was not accepted, and the failure of any other
  command. A stat never ends the pipeline.
\<close>

fun halts :: "event \<Rightarrow> bool" where
  "halts (Exec c out err) = (if isStatus c then out \<noteq> [] else err \<noteq> None)"
| "halts (ReadString t err) = (err \<noteq> None \<or> \<not> accepted t)"
| "halts _ = False"

text \<open>
  The steps of the pipeline, numbered in the order of the closure: 1 decide (no event),
  2 confirm, 3 clean-tree check, 4 ensure the master branch, 5 pull, 6 dependency update
  (\<^verbatim>\<open>go get\<close> and \<^verbatim>\<open>go mod tidy\<close>), 7 vet, 8 test, 9 conditional build (the stat, the build
  and the removal of the binary), 10 commit (\<^verbatim>\<open>git add\<close> and \<^verbatim>\<open>git commit\<close>), 11 push.
\<close>

definition stepOfCmd :: "cmd \<Rightarrow> nat" where
  "stepOfCmd c =
     (if Name c = ''git'' \<and> take 1 (Args c) = [''status''] then 3
      else if Name c = ''git'' \<and> take 1 (Args c) = [''rev-parse''] then 4
      else if Name c = ''git'' \<and> take 1 (Args c) = [''checkout''] then 4
      else if Name c = ''git'' \<and> take 1 (Args c) = [''pull''] then 5
      else if Name c = ''go'' \<and> take 1 (Args c) = [''get''] then 6
      else if Name c = ''go'' \<and> take 1 (Args c) = [''mod''] then 6
      else if Name c = ''go'' \<and> take 1 (Args c) = [''vet''] then 7
      else if Name c = ''go'' \<and> take 1 (Args c) = [''test''] then 8
      else if Name c = ''go'' \<and> take 1 (Args c) = [''build''] then 9
      else if Name c = ''rm'' then 9
      else if Name c = ''git'' \<and> take 1 (Args c) = [''add''] then 10
      else if Name c = ''git'' \<and> take 1 (Args c) = [''commit''] then 10
      else if Name c = ''git'' \<and> take 1 (Args c) = [''push''] then 11
      else 0)"

fun stepOf :: "event \<Rightarrow> nat" where
  "stepOf (Exec c out err) = stepOfCmd c"
| "stepOf (Stat p r) = 9"
| "stepOf (Prompt f a) = 2"
| "stepOf (ReadString t err) = 2"
| "stepOf _ = 0"

text \<open>A halt in the vet, test or build step: the three places where the closure returns an error.\<close>

definition aborts :: "event \<Rightarrow> bool" where
  "aborts x = (halts x \<and> 7 \<le> stepOf x \<and> stepOf x \<le> 9)"

text \<open>
  A plan is the list of actions of a run in which nothing halts; \<open>follows p tr\<close> says that
  the actions \<open>tr\<close> are the plan \<open>p\<close> item by item, up to and including the first one that
  halts, and all of the plan if none does.
\<close>

datatype item = Run cmd | Query string | Ask | Answer

fun matches :: "item \<Rightarrow> event \<Rightarrow> bool" where
  "matches (Run c) (Exec c' out err) = (c' = c)"
| "matches (Query p) (Stat p' st) = (p' = p)"
| "matches Ask (Prompt f a) = True"
| "matches Answer (ReadString t err) = True"
| "matches _ _ = False"

fun itemStep :: "item \<Rightarrow> nat" where
  "itemStep (Run c) = stepOfCmd c"
| "itemStep (Query p) = 9"
| "itemStep Ask = 2"
| "itemStep Answer = 2"

fun follows :: "item list \<Rightarrow> event list \<Rightarrow> bool" where
  "follows [] tr = (tr = [])"
| "follows (i # is) [] = False"
| "follows (i # is) (x # tr) = (matches i x \<and> (if halts x then tr = [] else follows is tr))"

text \<open>
  The plans of the five blocks. \<open>co\<close> says that the branch was not \<^verbatim>\<open>master\<close>, \<open>bu\<close> that
  the stat did not report \<^verbatim>\<open>main.go\<close> missing, \<open>cf\<close> that confirmation is on.
\<close>

definition planPublish :: "string \<Rightarrow> string \<Rightarrow> string \<Rightarrow> item list" where
  "planPublish d dep tv = [Run (git_add d), Run (git_commit d dep tv), Run (git_push d)]"

definition planVerify :: "'w env \<Rightarrow> string \<Rightarrow> string \<Rightarrow> string \<Rightarrow> bool \<Rightarrow> item list" where
  "planVerify env d dep tv bu =
     [Run (go_vet d), Run (go_test d), Query (path_Join env d ''main.go'')]
     @ (if bu then [Run (go_build d), Run (rm_tmp_app d)] else [])
     @ planPublish d dep tv"

definition planUpdate :: "'w env \<Rightarrow> string \<Rightarrow> string \<Rightarrow> string \<Rightarrow> bool \<Rightarrow> item list" where
  "planUpdate env d dep tv bu =
     [Run (git_pull d), Run (go_get d dep tv), Run (go_mod_tidy d)] @ planVerify env d dep tv bu"

definition planPrepare :: "'w env \<Rightarrow> string \<Rightarrow> string \<Rightarrow> string \<Rightarrow> bool \<Rightarrow> bool \<Rightarrow> item list" where
  "planPrepare env d dep tv co bu =
     [Run (git_status d), Run (git_rev_parse d)] @ (if co then [Run (git_checkout d)] else [])
     @ planUpdate env d dep tv bu"

definition planWalk ::
  "'w env \<Rightarrow> string \<Rightarrow> string \<Rightarrow> string \<Rightarrow> bool \<Rightarrow> bool \<Rightarrow> bool \<Rightarrow> item list" where
  "planWalk env d dep tv cf co bu =
     (if cf then [Ask, Answer] else []) @ planPrepare env d dep tv co bu"

text \<open>The two facts a plan depends on, as events: the branch read was not \<^verbatim>\<open>master\<close>, the stat
  did not answer that the file is missing.\<close>

fun offMaster :: "event \<Rightarrow> bool" where
  "offMaster (Exec c out err) = (isRevParse c \<and> err = None \<and> TrimSpace out \<noteq> ''master'')"
| "offMaster _ = False"

fun found :: "event \<Rightarrow> bool" where
  "found (Stat p st) = (st \<noteq> Some ErrNotExist)"
| "found _ = False"

fun isStat :: "event \<Rightarrow> bool" where
  "isStat (Stat p st) = True"
| "isStat _ = False"

text \<open>The command \<open>c\<close> was run; it was run and succeeded.\<close>

fun ran :: "cmd \<Rightarrow> event \<Rightarrow> bool" where
  "ran c (Exec c' out err) = (c' = c)"
| "ran c _ = False"

fun passed :: "cmd \<Rightarrow> event \<Rightarrow> bool" where
  "passed c (Exec c' out err) = (c' = c \<and> err = None)"
| "passed c _ = False"

text \<open>A stat of the path \<open>p\<close> whose answer agrees with \<open>b\<close>; any other event is accepted.\<close>

fun statOk :: "string \<Rightarrow> bool \<Rightarrow> event \<Rightarrow> bool" where
  "statOk p b (Stat p' st) = (p' = p \<and> (st \<noteq> Some ErrNotExist) = b)"
| "statOk p b _ = True"

text \<open>\<^verbatim>\<open>git status\<close> in \<open>d\<close> printed nothing; the answer read was accepted.\<close>

fun clean :: "string \<Rightarrow> event \<Rightarrow> bool" where
  "clean d (Exec c out err) = (c = git_status d \<and> out = [])"
| "clean d _ = False"

fun yes :: "event \<Rightarrow> bool" where
  "yes (ReadString t err) = (err = None \<and> accepted t)"
| "yes _ = False"

text \<open>
  Every command may change the work tree, the repository or the remote, except the two
  queries \<^verbatim>\<open>git status --porcelain\<close> and \<^verbatim>\<open>git rev-parse --abbrev-ref HEAD\<close>.
\<close>

fun mutation :: "event \<Rightarrow> bool" where
  "mutation (Exec c out err) = (\<not> isStatus c \<and> \<not> isRevParse c)"
| "mutation _ = False"

text \<open>No mutation before the first event that satisfies \<open>g\<close>.\<close>

fun guardedBy :: "(event \<Rightarrow> bool) \<Rightarrow> event list \<Rightarrow> bool" where
  "guardedBy g [] = True"
| "guardedBy g (x # xs) = (g x \<or> (\<not> mutation x \<and> guardedBy g xs))"

text \<open>Every action of the step \<open>k\<close> or a later one.\<close>

definition since :: "nat \<Rightarrow> event \<Rightarrow> bool" where
  "since k x = (acts x \<longrightarrow> k \<le> stepOf x)"

text \<open>\<open>t'\<close> is \<open>t\<close> followed by events of which \<open>P\<close> holds.\<close>

definition added :: "event list \<Rightarrow> event list \<Rightarrow> (event list \<Rightarrow> bool) \<Rightarrow> bool" where
  "added t t' P = (\<exists>tr. t' = t @ tr \<and> P tr)"

section \<open>Properties\<close>

subsection \<open>Version inspection\<close>

lemma scanLines_find:
  "scanLines lines dependency =
     (case find (\<lambda>l. Contains l dependency) lines of
        None \<Rightarrow> VersionUnknown
      | Some line \<Rightarrow> if 1 < length (Fields line) then Fields line ! 1 else VersionNotFound)"
  by (induction lines) (simp_all add: Let_def)

lemma find_None_ball: "(find P xs = None) = (\<forall>x\<in>set xs. \<not> P x)"
  by (induction xs) auto

text \<open>
  Claim C2, as the code has it. The claim says that a manifest that can be read and in
  which no line contains the dependency name is classified "NotFound". The function
  returns \<^verbatim>\<open>VersionUnknown\<close> after its loop, so such a manifest is classified "Unknown",
  here for a manifest that holds the module line only.
\<close>

theorem getDependencyVersion_absent_not_NotFound:
  "ReadFile (scripted (readable ''module example.com/app'') allGood None ([], None) [])
       ''/r/a/go.mod'' () = (''module example.com/app'', None)
   \<and> Split_newline ''module example.com/app'' = [''module example.com/app'']
   \<and> \<not> Contains ''module example.com/app'' ''github.com/foo/bar''
   \<and> getDependencyVersion
        (scripted (readable ''module example.com/app'') allGood None ([], None) []) ()
        ''/r/a/go.mod'' ''github.com/foo/bar'' = ''Unknown''
   \<and> getDependencyVersion
        (scripted (readable ''module example.com/app'') allGood None ([], None) []) ()
        ''/r/a/go.mod'' ''github.com/foo/bar'' \<noteq> ''NotFound''"
  by code_simp

text \<open>
  Claim C2, amended: for every manifest that can be read and in which no line contains
  the dependency name, the version inspector returns "Unknown"; for every manifest that
  cannot be read it returns "Unknown" as well; and neither "Unknown" nor "NotFound" ever
  makes the upgrade decision report that an upgrade is needed.
\<close>

theorem getDependencyVersion_absent_or_unreadable:
  "(ReadFile env filePath w = (data, None)
      \<and> (\<forall>line\<in>set (Split_newline data). \<not> Contains line dependency)
      \<longrightarrow> getDependencyVersion env w filePath dependency = ''Unknown'')
   \<and> (ReadFile env filePath w = (data, Some err)
      \<longrightarrow> getDependencyVersion env w filePath dependency = ''Unknown'')
   \<and> (getDependencyVersion env w filePath dependency = ''Unknown''
       \<or> getDependencyVersion env w filePath dependency = ''NotFound''
      \<longrightarrow> \<not> snd (shouldUpgrade env w filePath dependency targetVersion))"
  by (auto simp: getDependencyVersion_def shouldUpgrade_def scanLines_find Let_def
        VersionUnknown_def VersionNotFound_def find_None_ball[symmetric])

theorem getDependencyVersion_absent_or_unreadable_witness:
  "getDependencyVersion
     (scripted (readable ''module example.com/app'') allGood None ([], None) []) ()
     ''/r/a/go.mod'' ''github.com/foo/bar'' = ''Unknown''
   \<and> \<not> snd (shouldUpgrade
        (scripted (readable ''module example.com/app'') allGood None ([], None) []) ()
        ''/r/a/go.mod'' ''github.com/foo/bar'' ''v1.3.0'')
   \<and> getDependencyVersion (scripted unreadable allGood None ([], None) []) ()
        ''/r/a/go.mod'' ''github.com/foo/bar'' = ''Unknown''
   \<and> \<not> snd (shouldUpgrade (scripted unreadable allGood None ([], None) []) ()
        ''/r/a/go.mod'' ''github.com/foo/bar'' ''v1.3.0'')"
proof -
  have absent:
    "ReadFile (scripted (readable ''module example.com/app'') allGood None ([], None) [])
        ''/r/a/go.mod'' () = (''module example.com/app'', None)
     \<and> (\<forall>line\<in>set (Split_newline ''module example.com/app'').
           \<not> Contains line ''github.com/foo/bar'')"
    by code_simp
  have denied:
    "ReadFile (scripted unreadable allGood None ([], None) []) ''/r/a/go.mod'' ()
       = ([], Some ''permission denied'')"
    by code_simp
  from absent denied show ?thesis
    using getDependencyVersion_absent_or_unreadable
            [of "scripted (readable ''module example.com/app'') allGood None ([], None) []"
                "''/r/a/go.mod''" "()" "''module example.com/app''" "''github.com/foo/bar''"
                "[]" "''v1.3.0''"]
          getDependencyVersion_absent_or_unreadable
            [of "scripted unreadable allGood None ([], None) []"
                "''/r/a/go.mod''" "()" "[]" "''github.com/foo/bar''"
                "''permission denied''" "''v1.3.0''"]
    by blast
qed

text \<open>
  Claim C3: the version inspector is to return the token that follows the dependency name
  on its line, and "NotFound" when the name is the last token. The function takes the
  second field of the line without looking for the place of the name in it. On the
  single-line requirement \<^verbatim>\<open>require github.com/foo/bar v1.2.0\<close> it returns the name itself
  instead of the version after it, so a project that is already at the target \<^verbatim>\<open>v1.2.0\<close>
  is decided to need the upgrade; and on \<^verbatim>\<open>require github.com/foo/bar\<close>, where the name is
  the last token, it returns the name again and not "NotFound".
\<close>

theorem getDependencyVersion_not_following_token:
  "Fields ''require github.com/foo/bar v1.2.0''
     = [''require'', ''github.com/foo/bar'', ''v1.2.0'']
   \<and> getDependencyVersion
        (scripted (readable ''require github.com/foo/bar v1.2.0'') allGood None ([], None) [])
        () ''/r/a/go.mod'' ''github.com/foo/bar'' = ''github.com/foo/bar''
   \<and> shouldUpgrade
        (scripted (readable ''require github.com/foo/bar v1.2.0'') allGood None ([], None) [])
        () ''/r/a/go.mod'' ''github.com/foo/bar'' ''v1.2.0'' = (''github.com/foo/bar'', True)
   \<and> Fields ''require github.com/foo/bar'' = [''require'', ''github.com/foo/bar'']
   \<and> getDependencyVersion
        (scripted (readable ''require github.com/foo/bar'') allGood None ([], None) [])
        () ''/r/a/go.mod'' ''github.com/foo/bar'' = ''github.com/foo/bar''"
  by code_simp

subsection \<open>The upgrade decision\<close>

text \<open>
  Claim C4: whatever the current version read from the manifest and whatever the target,
  the decision is "needs upgrade" exactly when the current version is neither "Unknown"
  nor "NotFound" and differs from the target as a string. So equal strings never need an
  upgrade, and nothing but equality of the two strings is looked at: no order on versions.
\<close>

theorem shouldUpgrade_decision:
  "getDependencyVersion env w path dependency = current \<Longrightarrow>
   shouldUpgrade env w path dependency targetVersion =
     (current, current \<noteq> ''Unknown'' \<and> current \<noteq> ''NotFound'' \<and> current \<noteq> targetVersion)"
  by (simp add: shouldUpgrade_def Let_def VersionUnknown_def VersionNotFound_def)

theorem shouldUpgrade_decision_witness:
  "getDependencyVersion (scripted (readable manifest) allGood None ([], None) []) ()
      ''/r/a/go.mod'' ''github.com/foo/bar'' = ''v1.2.0''
   \<and> shouldUpgrade (scripted (readable manifest) allGood None ([], None) []) ()
      ''/r/a/go.mod'' ''github.com/foo/bar'' ''v1.1.0'' = (''v1.2.0'', True)
   \<and> shouldUpgrade (scripted (readable manifest) allGood None ([], None) []) ()
      ''/r/a/go.mod'' ''github.com/foo/bar'' ''v1.2.0'' = (''v1.2.0'', False)"
proof -
  have h: "getDependencyVersion (scripted (readable manifest) allGood None ([], None) []) ()
      ''/r/a/go.mod'' ''github.com/foo/bar'' = ''v1.2.0''"
    by code_simp
  show ?thesis
    using h shouldUpgrade_decision [OF h, of "''v1.1.0''"]
            shouldUpgrade_decision [OF h, of "''v1.2.0''"]
    by simp
qed

subsection \<open>The commit step\<close>

lemma Contains_commitMessage:
  "Contains (commitMessage dependency targetVersion) dependency"
  "Contains (commitMessage dependency targetVersion) targetVersion"
proof -
  have "sublist dependency (''Updated '' @ dependency @ ('' to version '' @ targetVersion))"
    by (rule sublist_appendI)
  then show "Contains (commitMessage dependency targetVersion) dependency"
    by (simp add: Contains_def commitMessage_def)
  have "sublist targetVersion ((''Updated '' @ dependency @ '' to version '') @ targetVersion @ [])"
    by (rule sublist_appendI)
  then show "Contains (commitMessage dependency targetVersion) targetVersion"
    by (simp add: Contains_def commitMessage_def)
qed

text \<open>
  Claim C8: whatever the world (so whatever else has changed in the working tree), the
  commit step first runs \<^verbatim>\<open>git add go.mod go.sum\<close> in the project directory, staging these
  two files and no other, and stops there if that fails; otherwise it runs exactly one more
  command, \<^verbatim>\<open>git commit -m\<close> with a message that contains the dependency name and the
  target version, and succeeds exactly when the commit does.
\<close>

theorem gitCommit_stages_two_files:
  "gitCommit env projectDir dependency targetVersion s = (r, s') \<Longrightarrow>
   \<exists>out err rest.
     trace s' = trace s
        @ Exec \<lparr>Name = ''git'', Args = [''add'', ''go.mod'', ''go.sum''], Dir = projectDir\<rparr> out err
        # rest
     \<and> (err \<noteq> None \<longrightarrow> rest = [] \<and> r \<noteq> None)
     \<and> (err = None \<longrightarrow>
          (\<exists>msg out' err'.
             rest = [Exec \<lparr>Name = ''git'', Args = [''commit'', ''-m'', msg], Dir = projectDir\<rparr> out' err']
             \<and> Contains msg dependency \<and> Contains msg targetVersion
             \<and> (r = None) = (err' = None)))"
  unfolding gitCommit_def checked_def executeCommand_def git_add_def git_commit_def
  by (auto simp: Contains_commitMessage split: prod.splits option.splits)

theorem gitCommit_stages_two_files_witness:
  "gitCommit (scripted (readable manifest) allGood None ([], None) []) ''/r/a''
      ''github.com/foo/bar'' ''v1.3.0'' start
     = (None,
        \<lparr>world = (),
         trace = [Exec \<lparr>Name = ''git'', Args = [''add'', ''go.mod'', ''go.sum''], Dir = ''/r/a''\<rparr>
                    [] None,
                  Exec \<lparr>Name = ''git'',
                        Args = [''commit'', ''-m'',
                                ''Updated github.com/foo/bar to version v1.3.0''],
                        Dir = ''/r/a''\<rparr> [] None]\<rparr>)
   \<and> (\<exists>out err rest.
        [Exec \<lparr>Name = ''git'', Args = [''add'', ''go.mod'', ''go.sum''], Dir = ''/r/a''\<rparr> [] None,
         Exec \<lparr>Name = ''git'',
               Args = [''commit'', ''-m'', ''Updated github.com/foo/bar to version v1.3.0''],
               Dir = ''/r/a''\<rparr> [] None]
          = Exec \<lparr>Name = ''git'', Args = [''add'', ''go.mod'', ''go.sum''], Dir = ''/r/a''\<rparr> out err
            # rest
        \<and> (err = None \<longrightarrow>
             (\<exists>msg out' err'.
                rest = [Exec \<lparr>Name = ''git'', Args = [''commit'', ''-m'', msg], Dir = ''/r/a''\<rparr>
                          out' err']
                \<and> Contains msg ''github.com/foo/bar'' \<and> Contains msg ''v1.3.0'')))"
proof -
  have h: "gitCommit (scripted (readable manifest) allGood None ([], None) []) ''/r/a''
      ''github.com/foo/bar'' ''v1.3.0'' start
     = (None,
        \<lparr>world = (),
         trace = [Exec \<lparr>Name = ''git'', Args = [''add'', ''go.mod'', ''go.sum''], Dir = ''/r/a''\<rparr>
                    [] None,
                  Exec \<lparr>Name = ''git'',
                        Args = [''commit'', ''-m'',
                                ''Updated github.com/foo/bar to version v1.3.0''],
                        Dir = ''/r/a''\<rparr> [] None]\<rparr>)"
    by code_simp
  have t: "trace start = []"
    by (simp add: start_def)
  from gitCommit_stages_two_files [OF h] t h show ?thesis
    by auto
qed

subsection \<open>The check for uncommitted changes\<close>

text \<open>
  Claim C10: \<^verbatim>\<open>hasUncommittedChanges\<close> runs \<^verbatim>\<open>git status --porcelain\<close> and answers by the
  output alone: true exactly when the combined output is not empty, whatever the error of
  the run. So when the command fails and prints something, a project that needs the upgrade
  is reported as having uncommitted changes (the warning is logged) and is skipped: the
  function returns \<^verbatim>\<open>nil\<close> to the walk and no further command is run.
\<close>

theorem hasUncommittedChanges_discards_error:
  assumes "werr e = None" "\<not> wisDir e" "wname e = ''go.mod''"
    and "shouldUpgrade env (world s) (wpath e) dependency targetVersion = (current, True)"
    and "projectDir = filepath_Dir env (wpath e)" "projectName = filepath_Base env projectDir"
    and "CombinedOutput env (git_status projectDir) (world s) = ((out, err), w')"
  shows "git_status projectDir
           = \<lparr>Name = ''git'', Args = [''status'', ''--porcelain''], Dir = projectDir\<rparr>
    \<and> hasUncommittedChanges env projectDir s
         = (out \<noteq> [], \<lparr>world = w', trace = trace s @ [Exec (git_status projectDir) out err]\<rparr>)
    \<and> (out \<noteq> [] \<longrightarrow>
         walkFn env dependency targetVersion False e s =
           (None, \<lparr>world = w', trace = trace s @
              [Logf InfoLevel ''Updating Project: %s from version %s to %s''
                 [projectName, current, targetVersion],
               Indented InfoLevel projectName ''Checking for uncommitted changes...'' [],
               Exec (git_status projectDir) out err,
               Indented WarnLevel projectName
                 ''Warning: Project %s has uncommitted changes. Skipping update.''
                 [projectName]]\<rparr>))"
  using assms
  by (simp add: walkFn_def prepare_def hasUncommittedChanges_def executeCommand_def
        printIndentedInfo_def printIndentedWarning_def emit_def Let_def git_status_def)

theorem hasUncommittedChanges_discards_error_witness:
  "hasUncommittedChanges
      (scripted (readable manifest) (failing ''/r/a'' [''status'', ''--porcelain'']) None
         ([], None) [])
      ''/r/a'' start
     = (True, \<lparr>world = (), trace = [Exec (git_status ''/r/a'') ''boom'' (Some ''exit status 1'')]\<rparr>)
   \<and> walkFn
        (scripted (readable manifest) (failing ''/r/a'' [''status'', ''--porcelain'']) None
           ([], None) [])
        ''github.com/foo/bar'' ''v1.3.0'' False (fileEntry ''/r/a/go.mod'') start
     = (None, \<lparr>world = (), trace =
          [Logf InfoLevel ''Updating Project: %s from version %s to %s''
             [''a'', ''v1.2.0'', ''v1.3.0''],
           Indented InfoLevel ''a'' ''Checking for uncommitted changes...'' [],
           Exec (git_status ''/r/a'') ''boom'' (Some ''exit status 1''),
           Indented WarnLevel ''a''
             ''Warning: Project %s has uncommitted changes. Skipping update.'' [''a'']]\<rparr>)"
proof -
  let ?env = "scripted (readable manifest) (failing ''/r/a'' [''status'', ''--porcelain'']) None
                ([], None) []"
  have e: "werr (fileEntry ''/r/a/go.mod'') = None" "\<not> wisDir (fileEntry ''/r/a/go.mod'')"
    "wname (fileEntry ''/r/a/go.mod'') = ''go.mod''"
    by code_simp+
  have u: "shouldUpgrade ?env (world start) (wpath (fileEntry ''/r/a/go.mod''))
             ''github.com/foo/bar'' ''v1.3.0'' = (''v1.2.0'', True)"
    by code_simp
  have d: "''/r/a'' = filepath_Dir ?env (wpath (fileEntry ''/r/a/go.mod''))"
    "''a'' = filepath_Base ?env ''/r/a''"
    by code_simp+
  have c: "CombinedOutput ?env (git_status ''/r/a'') (world start)
             = ((''boom'', Some ''exit status 1''), ())"
    by code_simp
  have t: "trace start = []" "''boom'' \<noteq> []"
    by (simp_all add: start_def)
  from hasUncommittedChanges_discards_error [OF e u d c] t show ?thesis
    by simp
qed

subsection \<open>The pipeline, block by block\<close>

lemmas step_defs =
  hasUncommittedChanges_def gitPull_def goGetUpdate_def goVet_def goTest_def goBuild_def
  gitCommit_def gitPush_def currentGitBranch_def gitCheckoutMaster_def checked_def
  executeCommand_def readInput_def printIndentedInfo_def printIndentedError_def
  printIndentedWarning_def directoryHasFile_def emit_def

lemmas cmd_defs =
  git_status_def git_rev_parse_def git_checkout_def git_pull_def go_get_def go_mod_tidy_def
  go_vet_def go_test_def go_build_def rm_tmp_app_def git_add_def git_commit_def git_push_def

lemma stepOfCmd_simps [simp]:
  "stepOfCmd (git_status d) = 3" "stepOfCmd (git_rev_parse d) = 4" "stepOfCmd (git_checkout d) = 4"
  "stepOfCmd (git_pull d) = 5" "stepOfCmd (go_get d a b) = 6" "stepOfCmd (go_mod_tidy d) = 6"
  "stepOfCmd (go_vet d) = 7" "stepOfCmd (go_test d) = 8" "stepOfCmd (go_build d) = 9"
  "stepOfCmd (rm_tmp_app d) = 9" "stepOfCmd (git_add d) = 10" "stepOfCmd (git_commit d a b) = 10"
  "stepOfCmd (git_push d) = 11"
  by (simp_all add: stepOfCmd_def cmd_defs)

lemma isStatus_simps [simp]:
  "isStatus (git_status d)" "\<not> isStatus (git_rev_parse d)" "\<not> isStatus (git_checkout d)"
  "\<not> isStatus (git_pull d)" "\<not> isStatus (go_get d a b)" "\<not> isStatus (go_mod_tidy d)"
  "\<not> isStatus (go_vet d)" "\<not> isStatus (go_test d)" "\<not> isStatus (go_build d)"
  "\<not> isStatus (rm_tmp_app d)" "\<not> isStatus (git_add d)" "\<not> isStatus (git_commit d a b)"
  "\<not> isStatus (git_push d)"
  by (simp_all add: isStatus_def cmd_defs)

lemma isRevParse_simps [simp]:
  "\<not> isRevParse (git_status d)" "isRevParse (git_rev_parse d)" "\<not> isRevParse (git_checkout d)"
  "\<not> isRevParse (git_pull d)" "\<not> isRevParse (go_get d a b)" "\<not> isRevParse (go_mod_tidy d)"
  "\<not> isRevParse (go_vet d)" "\<not> isRevParse (go_test d)" "\<not> isRevParse (go_build d)"
  "\<not> isRevParse (rm_tmp_app d)" "\<not> isRevParse (git_add d)" "\<not> isRevParse (git_commit d a b)"
  "\<not> isRevParse (git_push d)"
  by (simp_all add: isRevParse_def cmd_defs)

lemma build_distinct [simp]:
  "git_status d' \<noteq> go_build d" "git_rev_parse d' \<noteq> go_build d"
  "git_checkout d' \<noteq> go_build d" "git_pull d' \<noteq> go_build d"
  "go_get d' a b \<noteq> go_build d" "go_mod_tidy d' \<noteq> go_build d"
  "go_vet d' \<noteq> go_build d" "go_test d' \<noteq> go_build d"
  "rm_tmp_app d' \<noteq> go_build d" "git_add d' \<noteq> go_build d"
  "git_commit d' a b \<noteq> go_build d" "git_push d' \<noteq> go_build d"
  by (simp_all add: cmd_defs)

lemma test_distinct [simp]:
  "git_status d' \<noteq> go_test d" "git_rev_parse d' \<noteq> go_test d"
  "git_checkout d' \<noteq> go_test d" "git_pull d' \<noteq> go_test d"
  "go_get d' a b \<noteq> go_test d" "go_mod_tidy d' \<noteq> go_test d"
  "go_vet d' \<noteq> go_test d" "go_build d' \<noteq> go_test d"
  "rm_tmp_app d' \<noteq> go_test d" "git_add d' \<noteq> go_test d"
  "git_commit d' a b \<noteq> go_test d" "git_push d' \<noteq> go_test d"
  by (simp_all add: cmd_defs)

lemma since_simps [simp]:
  "since k (Exec c out err) = (k \<le> stepOfCmd c)"
  "since k (Stat p st) = (k \<le> 9)"
  "since k (Prompt f a) = (k \<le> 2)"
  "since k (ReadString t e) = (k \<le> 2)"
  "since k (Logf l f a)" "since k (Indented l n f a)" "since k (PrintError m)" "since k (Visit p)"
  by (simp_all add: since_def)

lemma aborts_simps [simp]:
  "aborts (Exec c out err) = (halts (Exec c out err) \<and> 7 \<le> stepOfCmd c \<and> stepOfCmd c \<le> 9)"
  "\<not> aborts (Stat p st)" "\<not> aborts (Prompt f a)" "\<not> aborts (ReadString t e)"
  "\<not> aborts (Logf l f a)" "\<not> aborts (Indented l n f a)" "\<not> aborts (PrintError m)"
  "\<not> aborts (Visit p)"
  by (simp_all add: aborts_def)

lemma added_append [simp]: "added t (t @ tr) P = P tr"
  by (simp add: added_def)

lemma addedD: "added t t' P \<Longrightarrow> \<exists>tr. t' = t @ tr \<and> P tr"
  by (simp add: added_def)

lemma since_mono: "list_all (since k) tr \<Longrightarrow> j \<le> k \<Longrightarrow> list_all (since j) tr"
  by (auto simp: list_all_iff since_def)

lemma since_10_7: "list_all (since 10) tr \<Longrightarrow> list_all (since 7) tr"
  using since_mono [of 10 tr 7] by simp

lemma since_7_5: "list_all (since 7) tr \<Longrightarrow> list_all (since 5) tr"
  using since_mono [of 7 tr 5] by simp

lemma since_5_3: "list_all (since 5) tr \<Longrightarrow> list_all (since 3) tr"
  using since_mono [of 5 tr 3] by simp

lemma since_3_2: "list_all (since 3) tr \<Longrightarrow> list_all (since 2) tr"
  using since_mono [of 3 tr 2] by simp

text \<open>What cannot be among the events of the commit and push steps.\<close>

lemma since10_quiet:
  assumes "list_all (since 10) tr"
  shows "\<not> list_ex found tr" "\<not> list_ex isStat tr" "\<not> list_ex aborts tr"
    "\<not> list_ex (ran (go_build d)) tr" "\<not> list_ex (passed (go_test d)) tr"
    "list_all (statOk p b) tr"
proof -
  have "\<not> found x \<and> \<not> isStat x \<and> \<not> aborts x \<and> \<not> ran (go_build d) x
        \<and> \<not> passed (go_test d) x \<and> statOk p b x" if "since 10 x" for x
    using that
    by (cases x) (auto simp: since_def aborts_def go_build_def go_test_def stepOfCmd_def)
  with assms show "\<not> list_ex found tr" "\<not> list_ex isStat tr" "\<not> list_ex aborts tr"
    "\<not> list_ex (ran (go_build d)) tr" "\<not> list_ex (passed (go_test d)) tr"
    "list_all (statOk p b) tr"
    by (auto simp: list_all_iff list_ex_iff)
qed

lemma since5_quiet:
  assumes "list_all (since 5) tr"
  shows "\<not> list_ex offMaster tr"
proof -
  have "\<not> offMaster x" if "since 5 x" for x
    using that by (cases x) (auto simp: since_def isRevParse_def stepOfCmd_def)
  with assms show ?thesis
    by (auto simp: list_all_iff list_ex_iff)
qed

text \<open>
  Each block appends a run of its plan to the trace. It returns an error exactly when the
  run has a halt in the vet, test or build step; every stat is of \<^verbatim>\<open>main.go\<close> in the project
  directory, is made exactly when the tests passed, and is answered "not missing" exactly
  when the build was run.
\<close>

lemma publish_run:
  assumes "publish env dep tv d name s = (r, s')"
  shows "added (trace s) (trace s') (\<lambda>tr. r = None
           \<and> follows (planPublish d dep tv) (filter acts tr) \<and> list_all (since 10) tr)"
  using assms
  unfolding publish_def step_defs planPublish_def
  by (auto simp: Let_def split: prod.splits option.splits)

lemma verify_run:
  assumes "verify env dep tv d name s = (r, s')"
  shows "added (trace s) (trace s') (\<lambda>tr.
             follows (planVerify env d dep tv (list_ex found tr)) (filter acts tr)
           \<and> (r \<noteq> None) = list_ex aborts tr
           \<and> list_all (statOk (path_Join env d ''main.go'') (list_ex (ran (go_build d)) tr)) tr
           \<and> list_ex (passed (go_test d)) tr = list_ex isStat tr
           \<and> list_all (since 7) tr)"
  using assms
  unfolding verify_def step_defs planVerify_def
  by (auto simp: Let_def since10_quiet since_10_7 planPublish_def
        split: prod.splits option.splits bool.splits if_splits
        dest!: publish_run [THEN addedD])

lemma update_run:
  assumes "update env dep tv d name s = (r, s')"
  shows "added (trace s) (trace s') (\<lambda>tr.
             follows (planUpdate env d dep tv (list_ex found tr)) (filter acts tr)
           \<and> (r \<noteq> None) = list_ex aborts tr
           \<and> list_all (statOk (path_Join env d ''main.go'') (list_ex (ran (go_build d)) tr)) tr
           \<and> list_ex (passed (go_test d)) tr = list_ex isStat tr
           \<and> list_all (since 5) tr)"
  using assms
  unfolding update_def step_defs planUpdate_def
  by (auto simp: Let_def since_7_5
        split: prod.splits option.splits bool.splits if_splits
        dest!: verify_run [THEN addedD])

lemma prepare_run:
  assumes "prepare env dep tv d name cur s = (r, s')"
  shows "added (trace s) (trace s') (\<lambda>tr.
             follows (planPrepare env d dep tv (list_ex offMaster tr) (list_ex found tr))
               (filter acts tr)
           \<and> (r \<noteq> None) = list_ex aborts tr
           \<and> list_all (statOk (path_Join env d ''main.go'') (list_ex (ran (go_build d)) tr)) tr
           \<and> list_ex (passed (go_test d)) tr = list_ex isStat tr
           \<and> list_all (since 3) tr
           \<and> guardedBy (clean d) tr)"
  using assms
  unfolding prepare_def step_defs planPrepare_def
  by (auto simp: Let_def since_5_3 since5_quiet
        split: prod.splits option.splits bool.splits if_splits
        dest!: update_run [THEN addedD])

lemma walkFn_run:
  assumes "walkFn env dep tv cf e s = (r, s')"
    and "werr e = None" and "\<not> wisDir e" and "wname e = ''go.mod''"
    and "shouldUpgrade env (world s) (wpath e) dep tv = (cur, up)"
  shows "added (trace s) (trace s') (\<lambda>tr.
             (if up
              then follows (planWalk env (filepath_Dir env (wpath e)) dep tv cf
                            (list_ex offMaster tr) (list_ex found tr)) (filter acts tr)
              else filter acts tr = [])
           \<and> (r \<noteq> None) = list_ex aborts tr
           \<and> list_all (statOk (path_Join env (filepath_Dir env (wpath e)) ''main.go'')
                 (list_ex (ran (go_build (filepath_Dir env (wpath e)))) tr)) tr
           \<and> list_ex (passed (go_test (filepath_Dir env (wpath e)))) tr = list_ex isStat tr
           \<and> list_all (since 2) tr
           \<and> guardedBy (clean (filepath_Dir env (wpath e))) tr
           \<and> (cf \<longrightarrow> guardedBy yes tr))"
  using assms
  unfolding walkFn_def readInput_def emit_def planWalk_def
  by (auto simp: Let_def since_3_2 accepted_def
        split: prod.splits option.splits bool.splits if_splits
        dest!: prepare_run [THEN addedD])

subsection \<open>Runs of a plan\<close>

lemma halts_acts: "halts x \<Longrightarrow> acts x"
  by (cases x) simp_all

lemma mutation_acts: "mutation x \<Longrightarrow> acts x"
  by (cases x) simp_all

lemma matches_step: "matches i x \<Longrightarrow> stepOf x = itemStep i"
  by (cases i; cases x) simp_all

lemma follows_halts_last:
  "follows p tr \<Longrightarrow> tr = pre @ x # post \<Longrightarrow> halts x \<Longrightarrow> post = []"
proof (induction p tr arbitrary: pre rule: follows.induct)
  case (3 i "is" y tl)
  show ?case
  proof (cases pre)
    case Nil
    with 3 show ?thesis by simp
  next
    case (Cons z pre')
    with 3 show ?thesis by (auto split: if_splits)
  qed
qed simp_all

lemma follows_set: "follows p tr \<Longrightarrow> x \<in> set tr \<Longrightarrow> \<exists>i\<in>set p. matches i x"
  by (induction p tr rule: follows.induct) (auto split: if_splits)

lemma follows_sorted:
  "follows p tr \<Longrightarrow> sorted (map itemStep p) \<Longrightarrow> sorted (map stepOf tr)"
proof (induction p tr rule: follows.induct)
  case (3 i "is" x tl)
  show ?case
  proof (cases "halts x")
    case True
    with 3 show ?thesis by simp
  next
    case False
    with 3 have f: "follows is tl" and m: "matches i x" by simp_all
    from 3 False f have s: "sorted (map stepOf tl)" by simp
    have "stepOf x \<le> stepOf y" if "y \<in> set tl" for y
    proof -
      from follows_set [OF f that] obtain j where j: "j \<in> set is" "matches j y" by blast
      from 3(3) j(1) have "itemStep i \<le> itemStep j" by auto
      with m j(2) show ?thesis by (simp add: matches_step)
    qed
    with s show ?thesis by auto
  qed
qed simp_all

lemma planWalk_sorted: "sorted (map itemStep (planWalk env d dep tv cf co bu))"
  by (simp add: planWalk_def planPrepare_def planUpdate_def planVerify_def planPublish_def)

text \<open>Nothing acts after a halt, and what acts before an action is of the same or an earlier step.\<close>

lemma halt_is_last:
  assumes "follows p (filter acts tr)" "tr = pre @ x # post" "halts x"
  shows "list_all (\<lambda>y. \<not> acts y) post"
proof -
  from assms have "filter acts tr = filter acts pre @ x # filter acts post"
    by (simp add: halts_acts)
  from follows_halts_last [OF assms(1) this assms(3)] show ?thesis
    by (simp add: list_all_iff filter_empty_conv)
qed

lemma earlier_steps:
  assumes "follows p (filter acts tr)" "sorted (map itemStep p)" "tr = pre @ x # post" "acts x"
  shows "list_all (\<lambda>y. acts y \<longrightarrow> stepOf y \<le> stepOf x) pre"
proof -
  from assms have "sorted (map stepOf (filter acts pre @ x # filter acts post))"
    using follows_sorted [OF assms(1,2)] by simp
  then show ?thesis
    by (auto simp: sorted_append list_all_iff)
qed

lemma guardedBy_before:
  assumes "guardedBy g tr" "\<And>y. g y \<Longrightarrow> \<not> mutation y" "tr = pre @ x # post" "mutation x"
  shows "list_ex g pre"
  using assms
proof (induction pre arbitrary: tr)
  case Nil
  then show ?case by auto
next
  case (Cons z pre')
  then show ?case by (cases "g z") auto
qed

lemma walk_append:
  "walk fn pre s = (None, s1) \<Longrightarrow> walk fn (pre @ es) s = walk fn es s1"
  by (induction pre arbitrary: s) (auto split: prod.splits option.splits)




subsection \<open>The pipeline of one project\<close>

text \<open>
  Claim C5: the pipeline short-circuits. For a project entry, the actions that one call of
  \<open>walkFn\<close> adds to the trace are these: none at all when the decision (step 1) is that
  no upgrade is needed; otherwise the plan of the pipeline, item by item, up to and
  including the first action that halts. Whenever an action halts (a declined or failed
  confirmation, output of the clean-tree check, the failure of any later command), nothing
  acts after it in the call, and everything that acted before it belongs to the same or an
  earlier step: no step after the one that halted is executed for the project.
\<close>

theorem walkFn_short_circuit:
  assumes "werr e = None" "\<not> wisDir e" "wname e = ''go.mod''"
    and "shouldUpgrade env (world s) (wpath e) dependency targetVersion = (current, upgrade)"
    and "walkFn env dependency targetVersion confirmBeforeEach e s = (r, s')"
  shows "\<exists>tr. trace s' = trace s @ tr
      \<and> (if upgrade
          then follows (planWalk env (filepath_Dir env (wpath e)) dependency targetVersion
                  confirmBeforeEach (list_ex offMaster tr) (list_ex found tr)) (filter acts tr)
          else list_all (\<lambda>y. \<not> acts y) tr)
      \<and> (\<forall>pre x post. tr = pre @ x # post \<and> halts x \<longrightarrow>
            list_all (\<lambda>y. \<not> acts y) post
            \<and> list_all (\<lambda>y. acts y \<longrightarrow> stepOf y \<le> stepOf x) pre)"
proof -
  from walkFn_run [OF assms(5) assms(1-4), THEN addedD]
  obtain tr where tr: "trace s' = trace s @ tr"
    and pl: "if upgrade
             then follows (planWalk env (filepath_Dir env (wpath e)) dependency targetVersion
                    confirmBeforeEach (list_ex offMaster tr) (list_ex found tr)) (filter acts tr)
             else filter acts tr = []"
    by blast
  have a: "if upgrade
          then follows (planWalk env (filepath_Dir env (wpath e)) dependency targetVersion
                  confirmBeforeEach (list_ex offMaster tr) (list_ex found tr)) (filter acts tr)
          else list_all (\<lambda>y. \<not> acts y) tr"
    using pl by (cases upgrade) (simp_all add: list_all_iff filter_empty_conv)
  have b: "list_all (\<lambda>y. \<not> acts y) post
           \<and> list_all (\<lambda>y. acts y \<longrightarrow> stepOf y \<le> stepOf x) pre"
    if "tr = pre @ x # post" "halts x" for pre x post
  proof (cases upgrade)
    case True
    with pl have f: "follows (planWalk env (filepath_Dir env (wpath e)) dependency targetVersion
                  confirmBeforeEach (list_ex offMaster tr) (list_ex found tr)) (filter acts tr)"
      by simp
    from halt_is_last [OF f that] earlier_steps [OF f planWalk_sorted that(1) halts_acts [OF that(2)]]
    show ?thesis by simp
  next
    case False
    with pl that halts_acts [OF that(2)] show ?thesis by simp
  qed
  from tr a b show ?thesis by blast
qed

theorem walkFn_short_circuit_witness:
  "trace (snd (walkFn (scripted (readable manifest) (failing ''/r/a'' [''pull'']) None
                         (''y\<newline>'', None) [])
                 ''github.com/foo/bar'' ''v1.3.0'' True (fileEntry ''/r/a/go.mod'') start)) ! 8
     = Exec (git_pull ''/r/a'') ''boom'' (Some ''exit status 1'')
   \<and> halts (Exec (git_pull ''/r/a'') ''boom'' (Some ''exit status 1''))
   \<and> follows (planWalk (scripted (readable manifest) (failing ''/r/a'' [''pull'']) None
                          (''y\<newline>'', None) [])
                ''/r/a'' ''github.com/foo/bar'' ''v1.3.0'' True False False)
        (filter acts
           (trace (snd (walkFn (scripted (readable manifest) (failing ''/r/a'' [''pull'']) None
                                  (''y\<newline>'', None) [])
                    ''github.com/foo/bar'' ''v1.3.0'' True (fileEntry ''/r/a/go.mod'') start))))
   \<and> list_all (\<lambda>y. \<not> acts y)
        (drop 9
           (trace (snd (walkFn (scripted (readable manifest) (failing ''/r/a'' [''pull'']) None
                                  (''y\<newline>'', None) [])
                    ''github.com/foo/bar'' ''v1.3.0'' True (fileEntry ''/r/a/go.mod'') start))))
   \<and> list_all (\<lambda>y. acts y \<longrightarrow> stepOf y \<le> 5)
        (take 8
           (trace (snd (walkFn (scripted (readable manifest) (failing ''/r/a'' [''pull'']) None
                                  (''y\<newline>'', None) [])
                    ''github.com/foo/bar'' ''v1.3.0'' True (fileEntry ''/r/a/go.mod'') start))))"
proof -
  let ?env = "scripted (readable manifest) (failing ''/r/a'' [''pull'']) None (''y\<newline>'', None) []"
  let ?X = "walkFn ?env ''github.com/foo/bar'' ''v1.3.0'' True (fileEntry ''/r/a/go.mod'') start"
  let ?x = "Exec (git_pull ''/r/a'') ''boom'' (Some ''exit status 1'')"
  have e: "werr (fileEntry ''/r/a/go.mod'') = None" "\<not> wisDir (fileEntry ''/r/a/go.mod'')"
    "wname (fileEntry ''/r/a/go.mod'') = ''go.mod''"
    by code_simp+
  have u: "shouldUpgrade ?env (world start) (wpath (fileEntry ''/r/a/go.mod''))
             ''github.com/foo/bar'' ''v1.3.0'' = (''v1.2.0'', True)"
    by code_simp
  have w: "?X = (fst ?X, snd ?X)"
    by simp
  have d: "filepath_Dir ?env (wpath (fileEntry ''/r/a/go.mod'')) = ''/r/a''"
    by code_simp
  have x: "trace (snd ?X) ! 8 = ?x" "halts ?x" "stepOf ?x = 5"
    by code_simp+
  have f: "list_ex offMaster (trace (snd ?X)) = False" "list_ex found (trace (snd ?X)) = False"
    by code_simp+
  have t: "trace (snd ?X) = take 8 (trace (snd ?X)) @ ?x # drop 9 (trace (snd ?X))"
    by code_simp
  from walkFn_short_circuit [OF e u w]
  obtain tr where tr: "trace (snd ?X) = trace start @ tr"
    and pl: "follows (planWalk ?env (filepath_Dir ?env (wpath (fileEntry ''/r/a/go.mod'')))
               ''github.com/foo/bar'' ''v1.3.0'' True (list_ex offMaster tr) (list_ex found tr))
               (filter acts tr)"
    and h: "\<And>pre x post. tr = pre @ x # post \<Longrightarrow> halts x \<Longrightarrow>
              list_all (\<lambda>y. \<not> acts y) post
              \<and> list_all (\<lambda>y. acts y \<longrightarrow> stepOf y \<le> stepOf x) pre"
    by auto
  from tr have eq: "tr = trace (snd ?X)"
    by (simp add: start_def)
  from h [of "take 8 (trace (snd ?X))" ?x "drop 9 (trace (snd ?X))"] t x eq
  have "list_all (\<lambda>y. \<not> acts y) (drop 9 (trace (snd ?X)))
        \<and> list_all (\<lambda>y. acts y \<longrightarrow> stepOf y \<le> 5) (take 8 (trace (snd ?X)))"
    by simp
  with pl x d f eq show ?thesis
    by simp
qed

text \<open>
  Claim C6: a project is mutated only after the gates. In the events of one call of
  \<open>walkFn\<close> for a project entry, every command other than the two read-only queries is
  preceded by a \<^verbatim>\<open>git status --porcelain\<close> in the project directory that printed nothing
  and, when confirmation is on, by an accepted answer; and it occurs only when the upgrade
  decision was positive. After an action that halts the pipeline no further command is
  run: what was changed so far is left as it is, nothing undoes it.
\<close>

theorem walkFn_mutation_guarded:
  assumes "werr e = None" "\<not> wisDir e" "wname e = ''go.mod''"
    and "shouldUpgrade env (world s) (wpath e) dependency targetVersion = (current, upgrade)"
    and "walkFn env dependency targetVersion confirmBeforeEach e s = (r, s')"
  shows "\<exists>tr. trace s' = trace s @ tr
      \<and> (\<forall>pre x post. tr = pre @ x # post \<and> mutation x \<longrightarrow>
            upgrade \<and> list_ex (clean (filepath_Dir env (wpath e))) pre
            \<and> (confirmBeforeEach \<longrightarrow> list_ex yes pre))
      \<and> (\<forall>pre x post. tr = pre @ x # post \<and> halts x \<longrightarrow> list_all (\<lambda>y. \<not> mutation y) post)"
proof -
  from walkFn_run [OF assms(5) assms(1-4), THEN addedD]
  obtain tr where tr: "trace s' = trace s @ tr"
    and pl: "if upgrade
             then follows (planWalk env (filepath_Dir env (wpath e)) dependency targetVersion
                    confirmBeforeEach (list_ex offMaster tr) (list_ex found tr)) (filter acts tr)
             else filter acts tr = []"
    and gc: "guardedBy (clean (filepath_Dir env (wpath e))) tr"
    and gy: "confirmBeforeEach \<longrightarrow> guardedBy yes tr"
    by blast
  have a: "upgrade \<and> list_ex (clean (filepath_Dir env (wpath e))) pre
           \<and> (confirmBeforeEach \<longrightarrow> list_ex yes pre)"
    if "tr = pre @ x # post" "mutation x" for pre x post
  proof -
    have c: "\<not> mutation y" if "clean (filepath_Dir env (wpath e)) y" for y
      using that by (cases y) auto
    have y: "\<not> mutation y" if "yes y" for y
      using that by (cases y) auto
    from pl that mutation_acts [OF that(2)] have "upgrade"
      by (cases upgrade) simp_all
    moreover from guardedBy_before [OF gc c that]
    have "list_ex (clean (filepath_Dir env (wpath e))) pre" .
    moreover from guardedBy_before [OF _ y that] gy
    have "confirmBeforeEach \<longrightarrow> list_ex yes pre" by blast
    ultimately show ?thesis by blast
  qed
  have b: "list_all (\<lambda>y. \<not> mutation y) post" if "tr = pre @ x # post" "halts x" for pre x post
  proof (cases upgrade)
    case True
    with pl have f: "follows (planWalk env (filepath_Dir env (wpath e)) dependency targetVersion
                  confirmBeforeEach (list_ex offMaster tr) (list_ex found tr)) (filter acts tr)"
      by simp
    from halt_is_last [OF f that] show ?thesis
      by (auto simp: list_all_iff dest: mutation_acts)
  next
    case False
    with pl that halts_acts [OF that(2)] show ?thesis by simp
  qed
  from tr a b show ?thesis by blast
qed

theorem walkFn_mutation_guarded_witness:
  "trace (snd (walkFn (scripted (readable manifest) (failing ''/r/a'' [''pull'']) None
                         (''y\<newline>'', None) [])
                 ''github.com/foo/bar'' ''v1.3.0'' True (fileEntry ''/r/a/go.mod'') start)) ! 8
     = Exec (git_pull ''/r/a'') ''boom'' (Some ''exit status 1'')
   \<and> mutation (Exec (git_pull ''/r/a'') ''boom'' (Some ''exit status 1''))
   \<and> halts (Exec (git_pull ''/r/a'') ''boom'' (Some ''exit status 1''))
   \<and> list_ex (clean ''/r/a'')
        (take 8
           (trace (snd (walkFn (scripted (readable manifest) (failing ''/r/a'' [''pull'']) None
                                  (''y\<newline>'', None) [])
                    ''github.com/foo/bar'' ''v1.3.0'' True (fileEntry ''/r/a/go.mod'') start))))
   \<and> list_ex yes
        (take 8
           (trace (snd (walkFn (scripted (readable manifest) (failing ''/r/a'' [''pull'']) None
                                  (''y\<newline>'', None) [])
                    ''github.com/foo/bar'' ''v1.3.0'' True (fileEntry ''/r/a/go.mod'') start))))
   \<and> list_all (\<lambda>y. \<not> mutation y)
        (drop 9
           (trace (snd (walkFn (scripted (readable manifest) (failing ''/r/a'' [''pull'']) None
                                  (''y\<newline>'', None) [])
                    ''github.com/foo/bar'' ''v1.3.0'' True (fileEntry ''/r/a/go.mod'') start))))"
proof -
  let ?env = "scripted (readable manifest) (failing ''/r/a'' [''pull'']) None (''y\<newline>'', None) []"
  let ?X = "walkFn ?env ''github.com/foo/bar'' ''v1.3.0'' True (fileEntry ''/r/a/go.mod'') start"
  let ?x = "Exec (git_pull ''/r/a'') ''boom'' (Some ''exit status 1'')"
  have e: "werr (fileEntry ''/r/a/go.mod'') = None" "\<not> wisDir (fileEntry ''/r/a/go.mod'')"
    "wname (fileEntry ''/r/a/go.mod'') = ''go.mod''"
    by code_simp+
  have u: "shouldUpgrade ?env (world start) (wpath (fileEntry ''/r/a/go.mod''))
             ''github.com/foo/bar'' ''v1.3.0'' = (''v1.2.0'', True)"
    by code_simp
  have w: "?X = (fst ?X, snd ?X)"
    by simp
  have d: "filepath_Dir ?env (wpath (fileEntry ''/r/a/go.mod'')) = ''/r/a''"
    by code_simp
  have x: "trace (snd ?X) ! 8 = ?x" "mutation ?x" "halts ?x"
    by code_simp+
  have t: "trace (snd ?X) = take 8 (trace (snd ?X)) @ ?x # drop 9 (trace (snd ?X))"
    by code_simp
  from walkFn_mutation_guarded [OF e u w]
  obtain tr where tr: "trace (snd ?X) = trace start @ tr"
    and m: "\<And>pre x post. tr = pre @ x # post \<Longrightarrow> mutation x \<Longrightarrow>
              list_ex (clean (filepath_Dir ?env (wpath (fileEntry ''/r/a/go.mod'')))) pre
              \<and> list_ex yes pre"
    and h: "\<And>pre x post. tr = pre @ x # post \<Longrightarrow> halts x \<Longrightarrow>
              list_all (\<lambda>y. \<not> mutation y) post"
    by auto
  from tr have eq: "tr = trace (snd ?X)"
    by (simp add: start_def)
  from m [of "take 8 (trace (snd ?X))" ?x "drop 9 (trace (snd ?X))"]
       h [of "take 8 (trace (snd ?X))" ?x "drop 9 (trace (snd ?X))"] t x eq d
  show ?thesis
    by simp
qed



subsection \<open>The walk after a failed check\<close>

text \<open>
  Claim C1, as the code has it. The claim says that after a failure of the vet, test or
  build step the scan goes on with the next project. The closure returns an error in these
  three places, and \<^verbatim>\<open>filepath.Walk\<close> stops at the first error. Here the tree holds the
  projects \<^verbatim>\<open>/r/a\<close> and \<^verbatim>\<open>/r/b\<close>, both in need of the upgrade, and \<^verbatim>\<open>go vet\<close> fails in
  \<^verbatim>\<open>/r/a\<close>: the manifest of \<^verbatim>\<open>/r/b\<close> is never visited, and the run ends with the failed
  command, its error line and the line of \<^verbatim>\<open>main\<close> about the walk. When it is \<^verbatim>\<open>git pull\<close>
  that fails in \<^verbatim>\<open>/r/a\<close>, the manifest of \<^verbatim>\<open>/r/b\<close> is visited.
\<close>

theorem main_stops_after_failed_check:
  "Visit ''/r/b/go.mod''
     \<notin> set (trace (main (scripted (readable manifest) (failing ''/r/a'' [''vet'', ''./...''])
                           (Some ErrNotExist) ([], None)
                           [dirEntry ''/r'', dirEntry ''/r/a'', fileEntry ''/r/a/go.mod'',
                            dirEntry ''/r/b'', fileEntry ''/r/b/go.mod''])
                     [''go-dep-updater'', ''/r'', ''github.com/foo/bar'', ''v1.3.0''] start))
   \<and> drop 15 (trace (main (scripted (readable manifest) (failing ''/r/a'' [''vet'', ''./...''])
                           (Some ErrNotExist) ([], None)
                           [dirEntry ''/r'', dirEntry ''/r/a'', fileEntry ''/r/a/go.mod'',
                            dirEntry ''/r/b'', fileEntry ''/r/b/go.mod''])
                     [''go-dep-updater'', ''/r'', ''github.com/foo/bar'', ''v1.3.0''] start))
       = [Exec (go_vet ''/r/a'') ''boom'' (Some ''exit status 1''),
          Indented ErrorLevel ''a'' ''Error running go vet for project %s: %v''
            [''a'', ''exit status 1: boom''],
          Logf ErrorLevel ''Error walking the path: %v\<newline>'' [aborted]]
   \<and> Visit ''/r/b/go.mod''
     \<in> set (trace (main (scripted (readable manifest) (failing ''/r/a'' [''pull''])
                           (Some ErrNotExist) ([], None)
                           [dirEntry ''/r'', dirEntry ''/r/a'', fileEntry ''/r/a/go.mod'',
                            dirEntry ''/r/b'', fileEntry ''/r/b/go.mod''])
                     [''go-dep-updater'', ''/r'', ''github.com/foo/bar'', ''v1.3.0''] start))"
  by code_simp

text \<open>
  Claim C1, amended: for every project whose pipeline fails at the vet step, the test step
  or the conditional build step (the build or the removal of the binary), the failure ends
  the whole run. The closure returns an error for the project, the walk stops there with
  that error, whatever entries follow are not visited, and \<^verbatim>\<open>main\<close> logs
  "Error walking the path" with that error and returns.
\<close>

theorem walk_stops_on_failed_check:
  assumes "werr e = None" "\<not> wisDir e" "wname e = ''go.mod''"
    and "4 \<le> length osArgs"
    and "fn = walkFn env (osArgs ! 2) (osArgs ! 3) (confirmEach osArgs)"
    and "visits env (osArgs ! 1) (world s) = before @ e # rest"
    and "walk fn before s = (None, s1)"
    and "fn e (emit (Visit (wpath e)) s1) = (r, s')"
    and "c = go_vet (filepath_Dir env (wpath e)) \<or> c = go_test (filepath_Dir env (wpath e))
         \<or> c = go_build (filepath_Dir env (wpath e)) \<or> c = rm_tmp_app (filepath_Dir env (wpath e))"
    and "Exec c out (Some err) \<in> set (drop (Suc (length (trace s1))) (trace s'))"
  shows "\<exists>a. r = Some a
           \<and> walk fn (before @ e # rest) s = (Some a, s')
           \<and> main env osArgs s
               = emit (Logf ErrorLevel ''Error walking the path: %v\<newline>'' [a]) s'"
proof -
  obtain cur up where u: "shouldUpgrade env (world (emit (Visit (wpath e)) s1)) (wpath e)
                            (osArgs ! 2) (osArgs ! 3) = (cur, up)"
    by (cases "shouldUpgrade env (world (emit (Visit (wpath e)) s1)) (wpath e)
                 (osArgs ! 2) (osArgs ! 3)") blast
  from assms(8) have w: "walkFn env (osArgs ! 2) (osArgs ! 3) (confirmEach osArgs) e
                           (emit (Visit (wpath e)) s1) = (r, s')"
    by (simp add: assms(5))
  from walkFn_run [OF w assms(1-3) u, THEN addedD]
  obtain tr where tr: "trace s' = trace (emit (Visit (wpath e)) s1) @ tr"
    and ab: "(r \<noteq> None) = list_ex aborts tr"
    by blast
  from tr have "drop (Suc (length (trace s1))) (trace s') = tr"
    by (simp add: emit_def)
  with assms(10) have "Exec c out (Some err) \<in> set tr" by simp
  moreover from assms(9) have "aborts (Exec c out (Some err))" by auto
  ultimately have "list_ex aborts tr" unfolding list_ex_iff by blast
  with ab obtain a where a: "r = Some a" by auto
  from walk_append [OF assms(7)] assms(8) a
  have wk: "walk fn (before @ e # rest) s = (Some a, s')" by simp
  with assms(4,5,6) have "main env osArgs s
               = emit (Logf ErrorLevel ''Error walking the path: %v\<newline>'' [a]) s'"
    by (simp add: main_def Walk_def Let_def)
  with a wk show ?thesis by blast
qed

theorem walk_stops_on_failed_check_witness:
  "main (scripted (readable manifest) (failing ''/r/a'' [''vet'', ''./...'']) (Some ErrNotExist)
           ([], None)
           [dirEntry ''/r'', dirEntry ''/r/a'', fileEntry ''/r/a/go.mod'',
            dirEntry ''/r/b'', fileEntry ''/r/b/go.mod''])
      [''go-dep-updater'', ''/r'', ''github.com/foo/bar'', ''v1.3.0''] start
   = emit (Logf ErrorLevel ''Error walking the path: %v\<newline>'' [aborted])
       (snd (walkFn (scripted (readable manifest) (failing ''/r/a'' [''vet'', ''./...''])
                       (Some ErrNotExist) ([], None)
                       [dirEntry ''/r'', dirEntry ''/r/a'', fileEntry ''/r/a/go.mod'',
                        dirEntry ''/r/b'', fileEntry ''/r/b/go.mod''])
               ''github.com/foo/bar'' ''v1.3.0'' False (fileEntry ''/r/a/go.mod'')
               \<lparr>world = (), trace = [Visit ''/r'', Visit ''/r/a'', Visit ''/r/a/go.mod'']\<rparr>))"
proof -
  let ?env = "scripted (readable manifest) (failing ''/r/a'' [''vet'', ''./...''])
                (Some ErrNotExist) ([], None)
                [dirEntry ''/r'', dirEntry ''/r/a'', fileEntry ''/r/a/go.mod'',
                 dirEntry ''/r/b'', fileEntry ''/r/b/go.mod'']"
  let ?args = "[''go-dep-updater'', ''/r'', ''github.com/foo/bar'', ''v1.3.0'']"
  let ?fn = "walkFn ?env (?args ! 2) (?args ! 3) (confirmEach ?args)"
  let ?e = "fileEntry ''/r/a/go.mod''"
  let ?s1 = "\<lparr>world = (), trace = [Visit ''/r'', Visit ''/r/a'']\<rparr> :: unit state"
  let ?X = "?fn ?e (emit (Visit (wpath ?e)) ?s1)"
  have e: "werr ?e = None" "\<not> wisDir ?e" "wname ?e = ''go.mod''"
    by code_simp+
  have n: "4 \<le> length ?args"
    by simp
  have v: "visits ?env (?args ! 1) (world start)
             = [dirEntry ''/r'', dirEntry ''/r/a''] @ ?e # [dirEntry ''/r/b'', fileEntry ''/r/b/go.mod'']"
    by code_simp
  have b: "walk ?fn [dirEntry ''/r'', dirEntry ''/r/a''] start = (None, ?s1)"
    by code_simp
  have w: "?X = (fst ?X, snd ?X)"
    by simp
  have c: "go_vet ''/r/a'' = go_vet (filepath_Dir ?env (wpath ?e))
           \<or> go_vet ''/r/a'' = go_test (filepath_Dir ?env (wpath ?e))
           \<or> go_vet ''/r/a'' = go_build (filepath_Dir ?env (wpath ?e))
           \<or> go_vet ''/r/a'' = rm_tmp_app (filepath_Dir ?env (wpath ?e))"
    by code_simp
  have x: "Exec (go_vet ''/r/a'') ''boom'' (Some ''exit status 1'')
             \<in> set (drop (Suc (length (trace ?s1))) (trace (snd ?X)))"
    by code_simp
  have r: "fst ?X = Some aborted"
    by code_simp
  have a: "?args ! 2 = ''github.com/foo/bar''" "?args ! 3 = ''v1.3.0''" "confirmEach ?args = False"
    "emit (Visit (wpath ?e)) ?s1
       = \<lparr>world = (), trace = [Visit ''/r'', Visit ''/r/a'', Visit ''/r/a/go.mod'']\<rparr>"
    by code_simp+
  from walk_stops_on_failed_check [OF e n refl v b w c x] r
  have "main ?env ?args start
          = emit (Logf ErrorLevel ''Error walking the path: %v\<newline>'' [aborted]) (snd ?X)"
    by auto
  then show ?thesis
    unfolding a .
qed

subsection \<open>Arguments and confirmation\<close>

text \<open>
  Claim C9: arguments and confirmation. With fewer than four elements in \<^verbatim>\<open>os.Args\<close>
  (fewer than three positional arguments) \<^verbatim>\<open>main\<close> logs the usage line and does nothing
  else; otherwise it walks the root with confirmation on exactly when a fifth element is
  present and equals \<^verbatim>\<open>confirm-each\<close>. For a project that needs the upgrade, the closure
  without confirmation goes straight into the pipeline; with confirmation it prompts, reads
  a line, and goes on exactly when the read succeeded and the line without its trailing
  newline is \<^verbatim>\<open>y\<close> or \<^verbatim>\<open>yes\<close>; otherwise it logs that the project is skipped and returns
  without running a command.
\<close>

theorem main_arguments_and_confirmation:
  assumes "werr e = None" "\<not> wisDir e" "wname e = ''go.mod''"
    and "shouldUpgrade env (world s) (wpath e) dependency targetVersion = (current, True)"
    and "projectDir = filepath_Dir env (wpath e)" "projectName = filepath_Base env projectDir"
    and "stdin_ReadString env (world s) = ((text, err), w')"
    and "asked = trace s @ [Prompt ''Continue with %s?'' [projectDir], ReadString text err]"
  shows "(if length osArgs < 4 then main env osArgs s = emit (Logf ErrorLevel usage []) s
          else main env osArgs s =
            (case walk (walkFn env (osArgs ! 2) (osArgs ! 3)
                          (5 \<le> length osArgs \<and> osArgs ! 4 = ''confirm-each''))
                    (visits env (osArgs ! 1) (world s)) s of
               (Some a, s') \<Rightarrow> emit (Logf ErrorLevel ''Error walking the path: %v\<newline>'' [a]) s'
             | (None, s') \<Rightarrow> s'))
    \<and> walkFn env dependency targetVersion False e s
        = prepare env dependency targetVersion projectDir projectName current s
    \<and> walkFn env dependency targetVersion True e s
        = (if err = None \<and> (TrimSuffix text [CHR 0x0A] = ''y'' \<or> TrimSuffix text [CHR 0x0A] = ''yes'')
           then prepare env dependency targetVersion projectDir projectName current
                  \<lparr>world = w', trace = asked\<rparr>
           else (None, \<lparr>world = w', trace = asked
                   @ (case err of None \<Rightarrow> [] | Some m \<Rightarrow> [PrintError m])
                   @ [Logf DebugLevel ''Skipping %s\<newline>'' [projectDir]]\<rparr>))"
  using assms
  by (simp add: main_def Walk_def confirmEach_def walkFn_def readInput_def emit_def Let_def
        split: option.splits)

theorem main_arguments_and_confirmation_witness:
  "main (scripted (readable manifest) allGood None (''Y\<newline>'', None) [])
      [''go-dep-updater'', ''/r'', ''github.com/foo/bar''] start
     = \<lparr>world = (), trace = [Logf ErrorLevel usage []]\<rparr>
   \<and> walkFn (scripted (readable manifest) allGood None (''Y\<newline>'', None) [])
        ''github.com/foo/bar'' ''v1.3.0'' True (fileEntry ''/r/a/go.mod'') start
     = (None, \<lparr>world = (), trace =
          [Prompt ''Continue with %s?'' [''/r/a''], ReadString ''Y\<newline>'' None,
           Logf DebugLevel ''Skipping %s\<newline>'' [''/r/a'']]\<rparr>)
   \<and> walkFn (scripted (readable manifest) allGood None (''yes\<newline>'', None) [])
        ''github.com/foo/bar'' ''v1.3.0'' True (fileEntry ''/r/a/go.mod'') start
     = prepare (scripted (readable manifest) allGood None (''yes\<newline>'', None) [])
         ''github.com/foo/bar'' ''v1.3.0'' ''/r/a'' ''a'' ''v1.2.0''
         \<lparr>world = (), trace =
            [Prompt ''Continue with %s?'' [''/r/a''], ReadString ''yes\<newline>'' None]\<rparr>"
proof -
  let ?env = "scripted (readable manifest) allGood None (''Y\<newline>'', None) []"
  let ?env' = "scripted (readable manifest) allGood None (''yes\<newline>'', None) []"
  let ?e = "fileEntry ''/r/a/go.mod''"
  have e: "werr ?e = None" "\<not> wisDir ?e" "wname ?e = ''go.mod''"
    by code_simp+
  have u: "shouldUpgrade ?env (world start) (wpath ?e) ''github.com/foo/bar'' ''v1.3.0''
             = (''v1.2.0'', True)"
    by code_simp
  have u': "shouldUpgrade ?env' (world start) (wpath ?e) ''github.com/foo/bar'' ''v1.3.0''
             = (''v1.2.0'', True)"
    by code_simp
  have d: "''/r/a'' = filepath_Dir ?env (wpath ?e)" "''a'' = filepath_Base ?env ''/r/a''"
    by code_simp+
  have d': "''/r/a'' = filepath_Dir ?env' (wpath ?e)" "''a'' = filepath_Base ?env' ''/r/a''"
    by code_simp+
  have i: "stdin_ReadString ?env (world start) = ((''Y\<newline>'', None), ())"
    by code_simp
  have i': "stdin_ReadString ?env' (world start) = ((''yes\<newline>'', None), ())"
    by code_simp
  have t: "TrimSuffix ''Y\<newline>'' [CHR 0x0A] = ''Y''" "TrimSuffix ''yes\<newline>'' [CHR 0x0A] = ''yes''"
    "trace start = []" "emit (Logf ErrorLevel usage []) start
                          = \<lparr>world = (), trace = [Logf ErrorLevel usage []]\<rparr>"
    by code_simp+
  from main_arguments_and_confirmation [OF e u d i refl,
         of "[''go-dep-updater'', ''/r'', ''github.com/foo/bar'']"]
       main_arguments_and_confirmation [OF e u' d' i' refl, of "[]"] t
  show ?thesis
    by simp
qed

end
